theory Spec2Isabelle
  imports Complex_Main "HOL-Library.AList" "HOL-Library.Char_ord" "HOL-Library.List_Lexorder"
    "HOL-Library.Log_Nat"
begin

section \<open>Tables\<close>

text \<open>
  The program of \<^verbatim>\<open>data_pipeline/fetch_data.py\<close> works on pandas tables. A table is an
  ordered list of named columns; a column (a pandas Series) has one element type:
  numbers, instants, durations or text. Instants are seconds since the epoch, durations
  are seconds. A number is carried by its exact value, a rational; the sums and the
  rounding of \<^verbatim>\<open>process_merged\<close> are those of binary64 numbers and are defined below.
\<close>

datatype error =
    KeyError
  | TypeError
  | ValueError
  | HTTPError
  | ConnectionError
  | JSONDecodeError
  | DownloadError
  | OSError
  | UnicodeEncodeError

datatype series =
    NumCol "rat list"
  | TimeCol "rat list"
  | DeltaCol "rat list"
  | StrCol "string list"

type_synonym frame = "(string \<times> series) list"

definition ebind :: "error + 'a \<Rightarrow> ('a \<Rightarrow> error + 'b) \<Rightarrow> error + 'b" where
  "ebind m f = (case m of Inl e \<Rightarrow> Inl e | Inr x \<Rightarrow> f x)"

fun series_len :: "series \<Rightarrow> nat" where
  "series_len (NumCol xs) = length xs"
| "series_len (TimeCol xs) = length xs"
| "series_len (DeltaCol xs) = length xs"
| "series_len (StrCol xs) = length xs"

definition nrows :: "frame \<Rightarrow> nat" where
  "nrows df = (case df of [] \<Rightarrow> 0 | (c, s) # rest \<Rightarrow> series_len s)"

definition columns :: "frame \<Rightarrow> string list" where
  "columns df = map fst df"

text \<open>\<^verbatim>\<open>df[c]\<close>: the column named \<open>c\<close>, KeyError when the table has none.\<close>

definition getcol :: "frame \<Rightarrow> string \<Rightarrow> error + series" where
  "getcol df c = (case map_of df c of None \<Rightarrow> Inl KeyError | Some s \<Rightarrow> Inr s)"

text \<open>
  \<^verbatim>\<open>df[c] = s\<close>: an existing column is replaced where it stands, a new one is appended
  after the last column.
\<close>

definition setcol :: "frame \<Rightarrow> string \<Rightarrow> series \<Rightarrow> frame" where
  "setcol df c s = AList.update c s df"

section \<open>Binary64 numbers\<close>

text \<open>
  The number columns of pandas are float64 columns. A binary64 number is a rational of
  the form \<open>m * 2 ^ e\<close> with 53 significant bits; every operation returns the binary64
  number nearest to the exact result, and of two nearest ones the one with the even
  significand. \<open>fl\<close> is that rounding: the exponent \<open>e\<close> of \<open>x\<close> is the one with
  \<open>2 ^ e \<le> \<bar>x\<bar> < 2 ^ (e + 1)\<close>, not below -1022 (gradual underflow), and the
  binary64 numbers around \<open>x\<close> are the multiples of \<open>2 ^ (e - 52)\<close>. A number that is not
  itself a binary64 number, such as 0.1, stands for the nearest one, as a literal does
  in the source data; so the operations round their operands first. An int64 column is
  carried as the number column of the same values; the two arithmetics agree on
  integers below \<open>2 ^ 53\<close> in magnitude. The model has no infinity and no NaN: it
  follows the source on numbers and results below the largest binary64 number.
\<close>

definition round_half_even :: "rat \<Rightarrow> int" where
  "round_half_even r =
     (let f = \<lfloor>r\<rfloor>; d = r - of_int f in
      if d < 1 / 2 then f
      else if 1 / 2 < d then f + 1
      else if even f then f else f + 1)"

definition pow2 :: "int \<Rightarrow> rat" where
  "pow2 e = (if 0 \<le> e then 2 ^ nat e else 1 / 2 ^ nat (- e))"

definition exponent :: "rat \<Rightarrow> int" where
  "exponent x =
     (case quotient_of \<bar>x\<bar> of (n, d) \<Rightarrow>
        let k = bitlen n - bitlen d in if pow2 k \<le> \<bar>x\<bar> then k else k - 1)"

definition fl :: "rat \<Rightarrow> rat" where
  "fl x =
     (if x = 0 then 0
      else let e = max (exponent x) (- 1022); ulp = pow2 (e - 52)
           in of_int (round_half_even (x / ulp)) * ulp)"

text \<open>\<^verbatim>\<open>x + y\<close> on two binary64 numbers.\<close>

definition fadd :: "rat \<Rightarrow> rat \<Rightarrow> rat" where
  "fadd x y = fl (fl x + fl y)"

text \<open>
  \<^verbatim>\<open>a + b\<close> on two columns of one table, element by element. Numbers add as binary64 numbers, text
  concatenates, an instant moves by a duration; every other pairing is a TypeError.
\<close>

fun series_add :: "series \<Rightarrow> series \<Rightarrow> error + series" where
  "series_add (NumCol xs) (NumCol ys) = Inr (NumCol (map2 fadd xs ys))"
| "series_add (StrCol xs) (StrCol ys) = Inr (StrCol (map2 (@) xs ys))"
| "series_add (TimeCol xs) (DeltaCol ys) = Inr (TimeCol (map2 (+) xs ys))"
| "series_add (DeltaCol xs) (TimeCol ys) = Inr (TimeCol (map2 (+) xs ys))"
| "series_add (DeltaCol xs) (DeltaCol ys) = Inr (DeltaCol (map2 (+) xs ys))"
| "series_add _ _ = Inl TypeError"

text \<open>\<^verbatim>\<open>df[a] + df[b]\<close>: both lookups, left first, then the sum.\<close>

definition col_sum :: "frame \<Rightarrow> string \<Rightarrow> string \<Rightarrow> error + series" where
  "col_sum df a b =
     ebind (getcol df a) (\<lambda>x. ebind (getcol df b) (\<lambda>y. series_add x y))"

text \<open>\<^verbatim>\<open>df[a] + df[b] + df[c]\<close>: Python adds from the left.\<close>

definition col_sum3 :: "frame \<Rightarrow> string \<Rightarrow> string \<Rightarrow> string \<Rightarrow> error + series" where
  "col_sum3 df a b c =
     ebind (col_sum df a b) (\<lambda>xy. ebind (getcol df c) (\<lambda>z. series_add xy z))"

section \<open>Rounding\<close>

text \<open>
  \<^verbatim>\<open>DataFrame.round(2)\<close> is, on every number, \<^verbatim>\<open>rint(x * 100) / 100\<close> in binary64: the
  product is rounded to a binary64 number, \<^verbatim>\<open>rint\<close> takes the nearest integer \<open>k\<close> with
  ties to the even one, and the quotient is the binary64 number nearest to \<open>k / 100\<close>.
  The model gives that last number by the decimal \<open>k / 100\<close> it is nearest to, which is
  also what \<^verbatim>\<open>to_csv\<close> prints for it. Only number columns change.
\<close>

definition round2 :: "rat \<Rightarrow> rat" where
  "round2 x = of_int (round_half_even (fl (fl x * 100))) / 100"

fun series_round :: "series \<Rightarrow> series" where
  "series_round (NumCol xs) = NumCol (map round2 xs)"
| "series_round (TimeCol xs) = TimeCol xs"
| "series_round (DeltaCol xs) = DeltaCol xs"
| "series_round (StrCol xs) = StrCol xs"

definition round_frame :: "frame \<Rightarrow> frame" where
  "round_frame df = map (\<lambda>(c, s). (c, series_round s)) df"

section \<open>Aggregation: \<^verbatim>\<open>process_merged\<close>\<close>

text \<open>
  The function assigns five columns to the table it is given, one after the other, and
  returns a rounded copy. The model returns the pair of the argument as the call leaves
  it and the outcome of the call, so that a KeyError in the middle keeps the columns
  assigned before it.
\<close>

definition process_merged :: "frame \<Rightarrow> frame \<times> (error + frame)" where
  "process_merged merged =
     (case col_sum merged ''WIND'' ''EMBEDDED_WIND_GENERATION'' of
        Inl e \<Rightarrow> (merged, Inl e)
      | Inr total_wind \<Rightarrow>
     let m1 = setcol merged ''TOTAL_WIND'' total_wind in
     (case col_sum m1 ''CCGT'' ''OCGT'' of
        Inl e \<Rightarrow> (m1, Inl e)
      | Inr total_gas \<Rightarrow>
     let m2 = setcol m1 ''TOTAL_GAS'' total_gas in
     (case col_sum3 m2 ''TOTAL_WIND'' ''EMBEDDED_SOLAR_GENERATION'' ''NPSHYD'' of
        Inl e \<Rightarrow> (m2, Inl e)
      | Inr total_renewable \<Rightarrow>
     let m3 = setcol m2 ''TOTAL_RENEWABLE'' total_renewable in
     (case col_sum3 m3 ''TOTAL_GAS'' ''COAL'' ''OIL'' of
        Inl e \<Rightarrow> (m3, Inl e)
      | Inr total_fossil \<Rightarrow>
     let m4 = setcol m3 ''TOTAL_FOSSIL_FUELS'' total_fossil in
     (case col_sum3 m4 ''TOTAL_RENEWABLE'' ''BIOMASS'' ''NUCLEAR'' of
        Inl e \<Rightarrow> (m4, Inl e)
      | Inr total_low_carbon \<Rightarrow>
     let m5 = setcol m4 ''TOTAL_LOW_CARBON'' total_low_carbon in
     (m5, Inr (round_frame m5)))))))"

section \<open>Timestamps and the time window\<close>

text \<open>
  \<^verbatim>\<open>pd.to_datetime(s, utc=True)\<close>. Text is parsed by pandas; the parser is a parameter
  \<open>parse\<close> of the model, \<open>None\<close> where pandas rejects the text. Numbers are
  nanoseconds since the epoch. Instants stay as they are.
\<close>

fun to_datetime :: "(string \<Rightarrow> rat option) \<Rightarrow> series \<Rightarrow> error + series" where
  "to_datetime parse (TimeCol ts) = Inr (TimeCol ts)"
| "to_datetime parse (StrCol ss) =
     (case those (map parse ss) of None \<Rightarrow> Inl ValueError | Some ts \<Rightarrow> Inr (TimeCol ts))"
| "to_datetime parse (NumCol xs) = Inr (TimeCol (map (\<lambda>x. x / 1000000000) xs))"
| "to_datetime parse (DeltaCol ds) = Inl TypeError"

definition minutes :: "rat \<Rightarrow> rat" where
  "minutes m = m * 60"

text \<open>\<^verbatim>\<open>timedelta(hours=hours)\<close>, in seconds.\<close>

definition hours_delta :: "int \<Rightarrow> rat" where
  "hours_delta h = of_int h * 3600"

text \<open>\<^verbatim>\<open>pd.to_timedelta((s - 1) * 30, unit="m")\<close> on a column of settlement periods.\<close>

fun period_offset :: "series \<Rightarrow> error + series" where
  "period_offset (NumCol ps) = Inr (DeltaCol (map (\<lambda>p. minutes ((p - 1) * 30)) ps))"
| "period_offset (TimeCol ts) = Inl TypeError"
| "period_offset (DeltaCol ds) = Inl TypeError"
| "period_offset (StrCol ss) = Inl TypeError"

text \<open>Lines 41 to 44 of the source: the settlement date is converted, then the timestamp is set.\<close>

definition bmrs_add_timestamp :: "(string \<Rightarrow> rat option) \<Rightarrow> frame \<Rightarrow> error + frame" where
  "bmrs_add_timestamp parse df =
     ebind (getcol df ''settlementDate'') (\<lambda>raw.
     ebind (to_datetime parse raw) (\<lambda>converted.
     let df1 = setcol df ''settlementDate'' converted in
     ebind (getcol df1 ''settlementDate'') (\<lambda>d.
     ebind (getcol df1 ''settlementPeriod'') (\<lambda>p.
     ebind (period_offset p) (\<lambda>off.
     ebind (series_add d off) (\<lambda>ts.
     Inr (setcol df1 ''timestamp'' ts)))))))"

text \<open>Lines 74 to 78 of the source: the same two assignments on the demand table.\<close>

definition neso_add_timestamp :: "(string \<Rightarrow> rat option) \<Rightarrow> frame \<Rightarrow> error + frame" where
  "neso_add_timestamp parse df =
     ebind (getcol df ''SETTLEMENT_DATE'') (\<lambda>raw.
     ebind (to_datetime parse raw) (\<lambda>converted.
     let df1 = setcol df ''SETTLEMENT_DATE'' converted in
     ebind (getcol df1 ''SETTLEMENT_DATE'') (\<lambda>d.
     ebind (getcol df1 ''SETTLEMENT_PERIOD'') (\<lambda>p.
     ebind (period_offset p) (\<lambda>off.
     ebind (series_add d off) (\<lambda>ts.
     Inr (setcol df1 ''timestamp'' ts)))))))"

text \<open>\<^verbatim>\<open>df[mask]\<close>: the rows at which the mask is true, in every column.\<close>

definition keep :: "bool list \<Rightarrow> 'a list \<Rightarrow> 'a list" where
  "keep flags xs = map snd (filter fst (zip flags xs))"

fun series_keep :: "bool list \<Rightarrow> series \<Rightarrow> series" where
  "series_keep flags (NumCol xs) = NumCol (keep flags xs)"
| "series_keep flags (TimeCol xs) = TimeCol (keep flags xs)"
| "series_keep flags (DeltaCol xs) = DeltaCol (keep flags xs)"
| "series_keep flags (StrCol xs) = StrCol (keep flags xs)"

definition select_mask :: "bool list \<Rightarrow> frame \<Rightarrow> frame" where
  "select_mask flags df = map (\<lambda>(c, s). (c, series_keep flags s)) df"

text \<open>
  \<^verbatim>\<open>df[(df["timestamp"] >= start) & (df["timestamp"] <= now)]\<close>: both ends of the window
  belong to it.
\<close>

fun window_mask :: "rat \<Rightarrow> rat \<Rightarrow> series \<Rightarrow> error + bool list" where
  "window_mask start now (TimeCol ts) = Inr (map (\<lambda>t. start \<le> t \<and> t \<le> now) ts)"
| "window_mask start now (NumCol xs) = Inl TypeError"
| "window_mask start now (DeltaCol ds) = Inl TypeError"
| "window_mask start now (StrCol ss) = Inl TypeError"

definition within_window :: "rat \<Rightarrow> rat \<Rightarrow> frame \<Rightarrow> error + frame" where
  "within_window start now df =
     ebind (getcol df ''timestamp'') (\<lambda>s.
     ebind (window_mask start now s) (\<lambda>flags.
     Inr (select_mask flags df)))"

section \<open>The two fetchers\<close>

text \<open>
  What the network answers is an input of the model. For the generation data it is no
  answer at all, or a status code with a body; the body is the table that
  \<^verbatim>\<open>pd.DataFrame(resp.json())\<close> builds (\<open>None\<close> when the body is not JSON). The empty JSON
  array gives the table with no column. \<open>now\<close> is the clock reading of the call.
\<close>

datatype http_result = NoConnection | Response nat "frame option"

definition fetch_bmrs_fuelinst ::
  "(string \<Rightarrow> rat option) \<Rightarrow> rat \<Rightarrow> int \<Rightarrow> http_result \<Rightarrow> error + frame" where
  "fetch_bmrs_fuelinst parse now hours http =
     (let start = now - hours_delta hours in
      case http of
        NoConnection \<Rightarrow> Inl ConnectionError
      | Response status body \<Rightarrow>
          if 400 \<le> status \<and> status < 600 then Inl HTTPError
          else (case body of
                  None \<Rightarrow> Inl JSONDecodeError
                | Some df \<Rightarrow>
                    ebind (bmrs_add_timestamp parse df) (within_window start now)))"

text \<open>\<^verbatim>\<open>df[[c1, ..., cn]]\<close>: the named columns in the order of the list.\<close>

fun select_cols :: "frame \<Rightarrow> string list \<Rightarrow> error + frame" where
  "select_cols df [] = Inr []"
| "select_cols df (c # cs) =
     ebind (getcol df c) (\<lambda>s.
     ebind (select_cols df cs) (\<lambda>rest.
     Inr ((c, s) # rest)))"

datatype csv_result = NoDownload | Csv frame

definition fetch_neso_demand ::
  "(string \<Rightarrow> rat option) \<Rightarrow> rat \<Rightarrow> int \<Rightarrow> csv_result \<Rightarrow> error + frame" where
  "fetch_neso_demand parse now hours csv =
     (case csv of
        NoDownload \<Rightarrow> Inl DownloadError
      | Csv df0 \<Rightarrow>
          ebind (select_cols df0
                   [''SETTLEMENT_DATE'', ''SETTLEMENT_PERIOD'',
                    ''EMBEDDED_WIND_GENERATION'', ''EMBEDDED_SOLAR_GENERATION'']) (\<lambda>df.
          ebind (neso_add_timestamp parse df) (\<lambda>df1.
          let start = now - hours_delta hours in
          within_window start now df1)))"

section \<open>Pivot and join: \<^verbatim>\<open>merge_datasets\<close>\<close>

text \<open>
  \<^verbatim>\<open>pivot_table(index="timestamp", columns="fuelType", values="generation",
  aggfunc="mean", fill_value=0)\<close>: the rows are grouped by timestamp and fuel type, each
  group gives the mean of its generation values, the timestamps become the sorted index,
  the fuel types the sorted columns, and a pair that no row has gives 0. The model covers
  instants as timestamps, text as fuel types and numbers as generation.
\<close>

definition mean :: "rat list \<Rightarrow> rat" where
  "mean xs = sum_list xs / of_nat (length xs)"

definition group_values ::
  "rat list \<Rightarrow> string list \<Rightarrow> rat list \<Rightarrow> rat \<Rightarrow> string \<Rightarrow> rat list" where
  "group_values ts fs gs t f =
     map snd (filter (\<lambda>(k, g). k = (t, f)) (zip (zip ts fs) gs))"

definition pivot_cell ::
  "rat list \<Rightarrow> string list \<Rightarrow> rat list \<Rightarrow> rat \<Rightarrow> string \<Rightarrow> rat" where
  "pivot_cell ts fs gs t f =
     (let vs = group_values ts fs gs t f in if vs = [] then 0 else mean vs)"

fun pivot_series :: "series \<Rightarrow> series \<Rightarrow> series \<Rightarrow> error + rat list \<times> frame" where
  "pivot_series (TimeCol ts) (StrCol fs) (NumCol gs) =
     (let idx = sort (remdups ts); cols = sort (remdups fs) in
      Inr (idx, map (\<lambda>f. (f, NumCol (map (\<lambda>t. pivot_cell ts fs gs t f) idx))) cols))"
| "pivot_series t f g = Inl TypeError"

definition pivot_table :: "frame \<Rightarrow> error + rat list \<times> frame" where
  "pivot_table df =
     ebind (getcol df ''generation'') (\<lambda>g.
     ebind (getcol df ''timestamp'') (\<lambda>t.
     ebind (getcol df ''fuelType'') (\<lambda>f.
     pivot_series t f g)))"

text \<open>
  \<^verbatim>\<open>reset_index()\<close> puts the index in front as the column \<^verbatim>\<open>timestamp\<close>, and raises
  ValueError when a column of that name is there already.
\<close>

definition reset_index :: "rat list \<times> frame \<Rightarrow> error + frame" where
  "reset_index p =
     (case p of (idx, tab) \<Rightarrow>
        if ''timestamp'' \<in> set (columns tab) then Inl ValueError
        else Inr ((''timestamp'', TimeCol idx) # tab))"

text \<open>Lines 101 to 107 of the source: the pivot, with the index put back as a column.\<close>

definition pivot_fuelinst :: "frame \<Rightarrow> error + frame" where
  "pivot_fuelinst df = ebind (pivot_table df) reset_index"

text \<open>
  \<^verbatim>\<open>pd.merge(left, right, on="timestamp", how="inner")\<close>: every pair of a left row and a
  right row with equal keys, in the order of the left rows. A column other than the key
  that both tables have is renamed with the suffixes \<^verbatim>\<open>_x\<close> and \<^verbatim>\<open>_y\<close>.
\<close>

definition join_pairs :: "'a list \<Rightarrow> 'a list \<Rightarrow> (nat \<times> nat) list" where
  "join_pairs ls rs =
     concat (map (\<lambda>i. map (\<lambda>j. (i, j)) (filter (\<lambda>j. ls ! i = rs ! j) [0..<length rs]))
                 [0..<length ls])"

fun key_pairs :: "series \<Rightarrow> series \<Rightarrow> error + (nat \<times> nat) list" where
  "key_pairs (TimeCol ls) (TimeCol rs) = Inr (join_pairs ls rs)"
| "key_pairs (NumCol ls) (NumCol rs) = Inr (join_pairs ls rs)"
| "key_pairs (DeltaCol ls) (DeltaCol rs) = Inr (join_pairs ls rs)"
| "key_pairs (StrCol ls) (StrCol rs) = Inr (join_pairs ls rs)"
| "key_pairs l r = Inl ValueError"

fun series_take :: "nat list \<Rightarrow> series \<Rightarrow> series" where
  "series_take ns (NumCol xs) = NumCol (map (nth xs) ns)"
| "series_take ns (TimeCol xs) = TimeCol (map (nth xs) ns)"
| "series_take ns (DeltaCol xs) = DeltaCol (map (nth xs) ns)"
| "series_take ns (StrCol xs) = StrCol (map (nth xs) ns)"

definition merge_columns :: "(nat \<times> nat) list \<Rightarrow> frame \<Rightarrow> frame \<Rightarrow> frame" where
  "merge_columns ps left right =
     (let lnames = removeAll ''timestamp'' (columns left);
          rnames = removeAll ''timestamp'' (columns right);
          lname = (\<lambda>c. if c \<in> set lnames \<and> c \<in> set rnames then c @ ''_x'' else c);
          rname = (\<lambda>c. if c \<in> set lnames then c @ ''_y'' else c)
      in map (\<lambda>(c, s). (lname c, series_take (map fst ps) s)) left @
         map (\<lambda>(c, s). (rname c, series_take (map snd ps) s))
             (filter (\<lambda>(c, s). c \<noteq> ''timestamp'') right))"

definition merge_inner :: "frame \<Rightarrow> frame \<Rightarrow> error + frame" where
  "merge_inner left right =
     ebind (getcol left ''timestamp'') (\<lambda>lk.
     ebind (getcol right ''timestamp'') (\<lambda>rk.
     ebind (key_pairs lk rk) (\<lambda>ps.
     Inr (merge_columns ps left right))))"

definition merge_datasets :: "frame \<Rightarrow> frame \<Rightarrow> error + frame" where
  "merge_datasets bmrs_fuelinst_df neso_df =
     ebind (pivot_fuelinst bmrs_fuelinst_df) (\<lambda>pivoted.
     merge_inner pivoted neso_df)"

section \<open>The run: \<^verbatim>\<open>fetch_pipeline\<close>\<close>

text \<open>
  A run prints five lines, one before each of its four steps and one after the write.
  \<^verbatim>\<open>print\<close> can raise (a closed stream, or an output encoding that has no arrow for the
  last line): the console is an input of the model that says, for each line, whether
  printing it raises and what.
\<close>

datatype message = FetchingBMRS | FetchingNESO | Merging | Processing | Saved nat

definition print_line :: "(message \<Rightarrow> error option) \<Rightarrow> message \<Rightarrow> error + unit" where
  "print_line console m = (case console m of None \<Rightarrow> Inr () | Some e \<Rightarrow> Inl e)"

text \<open>
  The content of the output file is the table that was written to it, or nothing when
  there is no file. \<^verbatim>\<open>to_csv\<close> opens the file for writing, which empties it, and writes
  the rows into it, with no temporary file. The disk is an input of the model: the
  write succeeds, or it raises before the file is opened and leaves the file as it was,
  or it raises after some rows and leaves a file with the rows written so far.
\<close>

type_synonym csv_file = "frame option"

datatype disk = DiskOk | DiskRefuses | DiskFailsAfter nat

fun series_head :: "nat \<Rightarrow> series \<Rightarrow> series" where
  "series_head k (NumCol xs) = NumCol (take k xs)"
| "series_head k (TimeCol xs) = TimeCol (take k xs)"
| "series_head k (DeltaCol xs) = DeltaCol (take k xs)"
| "series_head k (StrCol xs) = StrCol (take k xs)"

definition head_rows :: "nat \<Rightarrow> frame \<Rightarrow> frame" where
  "head_rows k df = map (\<lambda>(c, s). (c, series_head k s)) df"

definition to_csv :: "disk \<Rightarrow> frame \<Rightarrow> csv_file \<Rightarrow> (error + unit) \<times> csv_file" where
  "to_csv d df old =
     (case d of
        DiskOk \<Rightarrow> (Inr (), Some df)
      | DiskRefuses \<Rightarrow> (Inl OSError, old)
      | DiskFailsAfter k \<Rightarrow> (Inl OSError, Some (head_rows k df)))"

text \<open>
  An exception leaves \<^verbatim>\<open>fetch_pipeline\<close> at the line that raises it. Each fetcher reads
  the clock itself, so a run has two clock readings. The result of a run is its outcome
  and the content of the output file after it.
\<close>

definition fetch_pipeline ::
  "(string \<Rightarrow> rat option) \<Rightarrow> (message \<Rightarrow> error option) \<Rightarrow> rat \<Rightarrow> http_result
     \<Rightarrow> rat \<Rightarrow> csv_result \<Rightarrow> disk \<Rightarrow> csv_file \<Rightarrow> (error + unit) \<times> csv_file" where
  "fetch_pipeline parse console now1 http now2 csv d out =
     (case print_line console FetchingBMRS of
        Inl e \<Rightarrow> (Inl e, out)
      | Inr u1 \<Rightarrow>
     (case fetch_bmrs_fuelinst parse now1 24 http of
        Inl e \<Rightarrow> (Inl e, out)
      | Inr fuelinst_df \<Rightarrow>
     (case print_line console FetchingNESO of
        Inl e \<Rightarrow> (Inl e, out)
      | Inr u2 \<Rightarrow>
     (case fetch_neso_demand parse now2 24 csv of
        Inl e \<Rightarrow> (Inl e, out)
      | Inr neso_df \<Rightarrow>
     (case print_line console Merging of
        Inl e \<Rightarrow> (Inl e, out)
      | Inr u3 \<Rightarrow>
     (case merge_datasets fuelinst_df neso_df of
        Inl e \<Rightarrow> (Inl e, out)
      | Inr merged \<Rightarrow>
     (case print_line console Processing of
        Inl e \<Rightarrow> (Inl e, out)
      | Inr u4 \<Rightarrow>
     (case snd (process_merged merged) of
        Inl e \<Rightarrow> (Inl e, out)
      | Inr processed \<Rightarrow>
     (case to_csv d processed out of
        (Inl e, written) \<Rightarrow> (Inl e, written)
      | (Inr u5, written) \<Rightarrow>
     (case print_line console (Saved (nrows processed)) of
        Inl e \<Rightarrow> (Inl e, written)
      | Inr u6 \<Rightarrow> (Inr (), written)))))))))))"

section \<open>Vocabulary of the properties\<close>

text \<open>A number has at most two decimal digits when a hundred times it is an integer.\<close>

definition two_decimals :: "rat \<Rightarrow> bool" where
  "two_decimals x = (of_int \<lfloor>x * 100\<rfloor> = x * 100)"

fun series_two_decimals :: "series \<Rightarrow> bool" where
  "series_two_decimals (NumCol xs) = list_all two_decimals xs"
| "series_two_decimals (TimeCol xs) = True"
| "series_two_decimals (DeltaCol xs) = True"
| "series_two_decimals (StrCol xs) = True"

definition frame_two_decimals :: "frame \<Rightarrow> bool" where
  "frame_two_decimals df = list_all (\<lambda>(c, s). series_two_decimals s) df"

text \<open>No number of the list is above \<open>b\<close> in magnitude.\<close>

definition within_magnitude :: "rat \<Rightarrow> rat list \<Rightarrow> bool" where
  "within_magnitude b xs = list_all (\<lambda>x. \<bar>x\<bar> \<le> b) xs"

text \<open>The five columns that \<^verbatim>\<open>process_merged\<close> assigns, in the order of the assignments.\<close>

definition aggregate_names :: "string list" where
  "aggregate_names =
     [''TOTAL_WIND'', ''TOTAL_GAS'', ''TOTAL_RENEWABLE'', ''TOTAL_FOSSIL_FUELS'',
      ''TOTAL_LOW_CARBON'']"

text \<open>
  The rows of a long table of fuel rows that carry the timestamp \<open>t\<close> and the fuel type
  \<open>f\<close>, as positions.
\<close>

definition group_rows :: "rat list \<Rightarrow> string list \<Rightarrow> rat \<Rightarrow> string \<Rightarrow> nat list" where
  "group_rows ts fs t f = filter (\<lambda>j. ts ! j = t \<and> fs ! j = f) [0..<length ts]"

text \<open>Every column of the table has \<open>n\<close> rows.\<close>

definition all_len :: "nat \<Rightarrow> frame \<Rightarrow> bool" where
  "all_len n df = list_all (\<lambda>(c, s). series_len s = n) df"

section \<open>Example tables\<close>

text \<open>
  The examples carry their dates as instants, so no text is parsed: the parser of the
  examples rejects every text.
\<close>

definition no_text :: "string \<Rightarrow> rat option" where
  "no_text s = None"

text \<open>
  A console that prints every line, and one whose encoding has no arrow, so that the
  last line of a run raises.
\<close>

definition quiet :: "message \<Rightarrow> error option" where
  "quiet m = None"

fun no_arrow :: "message \<Rightarrow> error option" where
  "no_arrow (Saved n) = Some UnicodeEncodeError"
| "no_arrow m = None"

text \<open>The row of the end-to-end scenario of the specification.\<close>

definition example_row :: frame where
  "example_row =
     [(''WIND'', NumCol [100]), (''CCGT'', NumCol [200]), (''OCGT'', NumCol [50]),
      (''COAL'', NumCol [10]), (''OIL'', NumCol [5]), (''NPSHYD'', NumCol [2]),
      (''BIOMASS'', NumCol [3]), (''NUCLEAR'', NumCol [400]),
      (''EMBEDDED_WIND_GENERATION'', NumCol [20]),
      (''EMBEDDED_SOLAR_GENERATION'', NumCol [15])]"

text \<open>
  The same row with CCGT = 200.00390625 and OCGT = 50.00390625, which are binary64
  numbers (200 + 1/256 and 50 + 1/256).
\<close>

definition fine_row :: frame where
  "fine_row =
     [(''WIND'', NumCol [100]), (''CCGT'', NumCol [51201 / 256]),
      (''OCGT'', NumCol [12801 / 256]),
      (''COAL'', NumCol [10]), (''OIL'', NumCol [5]), (''NPSHYD'', NumCol [2]),
      (''BIOMASS'', NumCol [3]), (''NUCLEAR'', NumCol [400]),
      (''EMBEDDED_WIND_GENERATION'', NumCol [20]),
      (''EMBEDDED_SOLAR_GENERATION'', NumCol [15])]"

text \<open>
  A body of the generation source: the eight fuel types of the scenario in settlement
  period 3 of day 0 (the instant 3600), CCGT with the two readings 200 and 200.0078125,
  OCGT with 50.00390625.
\<close>

definition bmrs_example :: frame where
  "bmrs_example =
     [(''settlementDate'', TimeCol [0, 0, 0, 0, 0, 0, 0, 0, 0]),
      (''settlementPeriod'', NumCol [3, 3, 3, 3, 3, 3, 3, 3, 3]),
      (''fuelType'', StrCol [''WIND'', ''CCGT'', ''OCGT'', ''COAL'', ''OIL'', ''NPSHYD'',
                            ''BIOMASS'', ''NUCLEAR'', ''CCGT'']),
      (''generation'', NumCol [100, 200, 12801 / 256, 10, 5, 2, 3, 400, 25601 / 128])]"

text \<open>A body of the generation source in which no row has the fuel type OIL.\<close>

definition bmrs_no_oil :: frame where
  "bmrs_no_oil =
     [(''settlementDate'', TimeCol [0, 0, 0, 0, 0, 0, 0]),
      (''settlementPeriod'', NumCol [3, 3, 3, 3, 3, 3, 3]),
      (''fuelType'', StrCol [''WIND'', ''CCGT'', ''OCGT'', ''COAL'', ''NPSHYD'',
                            ''BIOMASS'', ''NUCLEAR'']),
      (''generation'', NumCol [100, 200, 50, 10, 2, 3, 400])]"

text \<open>Three rows of the generation source over two days.\<close>

definition bmrs_two_days :: frame where
  "bmrs_two_days =
     [(''settlementDate'', TimeCol [0, 0, 86400]),
      (''settlementPeriod'', NumCol [1, 48, 2]),
      (''fuelType'', StrCol [''WIND'', ''WIND'', ''WIND'']),
      (''generation'', NumCol [100, 110, 120])]"

text \<open>The demand file with the periods 3 and 4 of day 0, and with the periods 4 and 5.\<close>

definition neso_example :: frame where
  "neso_example =
     [(''SETTLEMENT_DATE'', TimeCol [0, 0]),
      (''SETTLEMENT_PERIOD'', NumCol [3, 4]),
      (''ND'', NumCol [30000, 30100]),
      (''EMBEDDED_WIND_GENERATION'', NumCol [20, 21]),
      (''EMBEDDED_SOLAR_GENERATION'', NumCol [15, 16])]"

definition neso_later :: frame where
  "neso_later =
     [(''SETTLEMENT_DATE'', TimeCol [0, 0]),
      (''SETTLEMENT_PERIOD'', NumCol [4, 5]),
      (''ND'', NumCol [30100, 30200]),
      (''EMBEDDED_WIND_GENERATION'', NumCol [21, 22]),
      (''EMBEDDED_SOLAR_GENERATION'', NumCol [16, 17])]"

definition neso_later_fetched :: frame where
  "neso_later_fetched =
     [(''SETTLEMENT_DATE'', TimeCol [0, 0]),
      (''SETTLEMENT_PERIOD'', NumCol [4, 5]),
      (''EMBEDDED_WIND_GENERATION'', NumCol [21, 22]),
      (''EMBEDDED_SOLAR_GENERATION'', NumCol [16, 17]),
      (''timestamp'', TimeCol [5400, 7200])]"

text \<open>Tables without rows: a join of the examples that matches nothing, and what a run writes from it.\<close>

definition no_oil_merged :: frame where
  "no_oil_merged =
     [(''timestamp'', TimeCol []), (''BIOMASS'', NumCol []), (''CCGT'', NumCol []),
      (''COAL'', NumCol []), (''NPSHYD'', NumCol []), (''NUCLEAR'', NumCol []),
      (''OCGT'', NumCol []), (''WIND'', NumCol []),
      (''SETTLEMENT_DATE'', TimeCol []), (''SETTLEMENT_PERIOD'', NumCol []),
      (''EMBEDDED_WIND_GENERATION'', NumCol []),
      (''EMBEDDED_SOLAR_GENERATION'', NumCol [])]"

definition empty_merged :: frame where
  "empty_merged =
     [(''timestamp'', TimeCol []), (''BIOMASS'', NumCol []), (''CCGT'', NumCol []),
      (''COAL'', NumCol []), (''NPSHYD'', NumCol []), (''NUCLEAR'', NumCol []),
      (''OCGT'', NumCol []), (''OIL'', NumCol []), (''WIND'', NumCol []),
      (''SETTLEMENT_DATE'', TimeCol []), (''SETTLEMENT_PERIOD'', NumCol []),
      (''EMBEDDED_WIND_GENERATION'', NumCol []),
      (''EMBEDDED_SOLAR_GENERATION'', NumCol [])]"

definition empty_written :: frame where
  "empty_written =
     empty_merged @
     [(''TOTAL_WIND'', NumCol []), (''TOTAL_GAS'', NumCol []),
      (''TOTAL_RENEWABLE'', NumCol []), (''TOTAL_FOSSIL_FUELS'', NumCol []),
      (''TOTAL_LOW_CARBON'', NumCol [])]"

text \<open>
  A run on \<open>bmrs_example\<close> and \<open>neso_example\<close>: what the second fetcher returns, the merged
  table, and what the run writes.
\<close>

definition neso_example_fetched :: frame where
  "neso_example_fetched =
     [(''SETTLEMENT_DATE'', TimeCol [0, 0]),
      (''SETTLEMENT_PERIOD'', NumCol [3, 4]),
      (''EMBEDDED_WIND_GENERATION'', NumCol [20, 21]),
      (''EMBEDDED_SOLAR_GENERATION'', NumCol [15, 16]),
      (''timestamp'', TimeCol [3600, 5400])]"

definition merged_example :: frame where
  "merged_example =
     [(''timestamp'', TimeCol [3600]), (''BIOMASS'', NumCol [3]),
      (''CCGT'', NumCol [51201 / 256]), (''COAL'', NumCol [10]),
      (''NPSHYD'', NumCol [2]), (''NUCLEAR'', NumCol [400]),
      (''OCGT'', NumCol [12801 / 256]), (''OIL'', NumCol [5]),
      (''WIND'', NumCol [100]), (''SETTLEMENT_DATE'', TimeCol [0]),
      (''SETTLEMENT_PERIOD'', NumCol [3]),
      (''EMBEDDED_WIND_GENERATION'', NumCol [20]),
      (''EMBEDDED_SOLAR_GENERATION'', NumCol [15])]"

definition written_example :: frame where
  "written_example =
     [(''timestamp'', TimeCol [3600]), (''BIOMASS'', NumCol [3]),
      (''CCGT'', NumCol [200]), (''COAL'', NumCol [10]),
      (''NPSHYD'', NumCol [2]), (''NUCLEAR'', NumCol [400]),
      (''OCGT'', NumCol [50]), (''OIL'', NumCol [5]),
      (''WIND'', NumCol [100]), (''SETTLEMENT_DATE'', TimeCol [0]),
      (''SETTLEMENT_PERIOD'', NumCol [3]),
      (''EMBEDDED_WIND_GENERATION'', NumCol [20]),
      (''EMBEDDED_SOLAR_GENERATION'', NumCol [15]),
      (''TOTAL_WIND'', NumCol [120]), (''TOTAL_GAS'', NumCol [25001 / 100]),
      (''TOTAL_RENEWABLE'', NumCol [137]),
      (''TOTAL_FOSSIL_FUELS'', NumCol [26501 / 100]),
      (''TOTAL_LOW_CARBON'', NumCol [540])]"

text \<open>A long table of fuel rows and the wide table that the pivot makes of it.\<close>

definition long_example :: frame where
  "long_example =
     [(''timestamp'', TimeCol [1800, 1800, 3600]),
      (''fuelType'', StrCol [''WIND'', ''CCGT'', ''WIND'']),
      (''generation'', NumCol [100, 200, 110])]"

definition wide_example :: frame where
  "wide_example =
     [(''timestamp'', TimeCol [1800, 3600]),
      (''CCGT'', NumCol [200, 0]),
      (''WIND'', NumCol [100, 110])]"

text \<open>Fuel rows with two WIND readings at 1800 and no CCGT row at 3600.\<close>

definition fuel_rows_example :: frame where
  "fuel_rows_example =
     [(''timestamp'', TimeCol [3600, 1800, 1800, 1800]),
      (''fuelType'', StrCol [''WIND'', ''WIND'', ''CCGT'', ''WIND'']),
      (''generation'', NumCol [110, 100, 200, 101])]"

text \<open>
  A pivoted table with the timestamps T1, T2, T3, a long table that pivots to it, and a
  demand table with T2, T3, T4.
\<close>

definition pivoted_example :: frame where
  "pivoted_example =
     [(''timestamp'', TimeCol [1800, 3600, 5400]),
      (''WIND'', NumCol [100, 110, 120])]"

definition long_three :: frame where
  "long_three =
     [(''timestamp'', TimeCol [5400, 1800, 3600]),
      (''fuelType'', StrCol [''WIND'', ''WIND'', ''WIND'']),
      (''generation'', NumCol [120, 100, 110])]"

definition demand_example :: frame where
  "demand_example =
     [(''SETTLEMENT_PERIOD'', NumCol [3, 4, 5]),
      (''EMBEDDED_WIND_GENERATION'', NumCol [20, 21, 22]),
      (''timestamp'', TimeCol [3600, 5400, 7200])]"

section \<open>Lemmas on tables\<close>

lemma map_of_setcol: "map_of (setcol df c s) = (map_of df)(c \<mapsto> s)"
  by (simp add: setcol_def update_conv')

lemma columns_setcol:
  "columns (setcol df c s) = (if c \<in> set (columns df) then columns df else columns df @ [c])"
  by (simp add: columns_def setcol_def update_keys)

lemma map_of_round_frame: "map_of (round_frame df) c = map_option series_round (map_of df c)"
  by (induction df) (auto simp: round_frame_def)

text \<open>
  The rounding to binary64 and the two operations on known values: the binary64 number
  for 0.1; 2.675 + 50, which rounds to 52.68 and not to 52.67; 0.2 + 0.375, which
  rounds to 0.57 and not to 0.58; and 2.675 itself, which rounds to 2.68.
\<close>

lemma binary64_examples:
  "fl (1 / 10) = 3602879701896397 / 36028797018963968"
  "round2 (fadd (2675 / 1000) 50) = 5268 / 100"
  "round2 (fadd (1 / 5) (3 / 8)) = 57 / 100"
  "round2 (2675 / 1000) = 268 / 100"
  by code_simp+

text \<open>The sums and the roundings of the examples.\<close>

lemma binary64_sums:
  "fadd 100 20 = 120" "fadd 120 15 = 135" "fadd 135 2 = 137" "fadd 137 3 = 140"
  "fadd 140 400 = 540" "fadd 200 50 = 250" "fadd 250 10 = 260" "fadd 260 5 = 265"
  "fadd (51201 / 256) (12801 / 256) = 32001 / 128"
  "fadd (32001 / 128) 10 = 33281 / 128" "fadd (33281 / 128) 5 = 33921 / 128"
  by code_simp+

lemma round2_values:
  "round2 2 = 2" "round2 3 = 3" "round2 5 = 5" "round2 10 = 10" "round2 15 = 15"
  "round2 20 = 20" "round2 50 = 50" "round2 100 = 100" "round2 120 = 120"
  "round2 137 = 137" "round2 200 = 200" "round2 250 = 250" "round2 265 = 265"
  "round2 400 = 400" "round2 540 = 540"
  "round2 (51201 / 256) = 200" "round2 (12801 / 256) = 50"
  "round2 (32001 / 128) = 25001 / 100" "round2 (33921 / 128) = 26501 / 100"
  by code_simp+

lemma two_decimals_round2: "two_decimals (round2 x)"
  by (simp add: two_decimals_def round2_def)

lemma series_two_decimals_round: "series_two_decimals (series_round s)"
  by (cases s) (simp_all add: list_all_iff two_decimals_round2)

lemma frame_two_decimals_round: "frame_two_decimals (round_frame df)"
  by (induction df) (auto simp: frame_two_decimals_def round_frame_def series_two_decimals_round)

lemma keep_map_filter: "keep (map P xs) xs = filter P xs"
  by (induction xs) (simp_all add: keep_def)

lemma getcol_select_mask:
  "getcol df c = Inr s \<Longrightarrow> getcol (select_mask flags df) c = Inr (series_keep flags s)"
  by (induction df) (auto simp: getcol_def select_mask_def split: if_splits)

lemma series_len_take: "series_len (series_take ns s) = length ns"
  by (cases s) simp_all

lemma series_len_round: "series_len (series_round s) = series_len s"
  by (cases s) simp_all

lemma all_len_iff: "all_len n df \<longleftrightarrow> (\<forall>(c, s)\<in>set df. series_len s = n)"
  by (simp add: all_len_def list_all_iff)

lemma all_len_take:
  "length ns = n \<Longrightarrow> all_len n (map (\<lambda>(c, s). (f c, series_take ns s)) df)"
  by (induction df) (auto simp: all_len_def series_len_take)

lemma all_len_append: "all_len n xs \<Longrightarrow> all_len n ys \<Longrightarrow> all_len n (xs @ ys)"
  by (simp add: all_len_def)

lemma all_len_nrows: "all_len n df \<Longrightarrow> df \<noteq> [] \<Longrightarrow> nrows df = n"
  by (cases df) (auto simp: all_len_def nrows_def)

lemma all_len_setcol:
  "all_len n df \<Longrightarrow> series_len s = n \<Longrightarrow> all_len n (setcol df c s)"
  by (induction df) (auto simp: all_len_def setcol_def)

lemma all_len_getcol: "all_len n df \<Longrightarrow> getcol df c = Inr s \<Longrightarrow> series_len s = n"
  by (auto simp: all_len_iff getcol_def split: option.splits dest: map_of_SomeD)

lemma all_len_round: "all_len n df \<Longrightarrow> all_len n (round_frame df)"
  by (auto simp: all_len_iff round_frame_def series_len_round)

lemma series_add_len:
  "series_add x y = Inr s \<Longrightarrow> series_len x = n \<Longrightarrow> series_len y = n \<Longrightarrow> series_len s = n"
  by (cases x; cases y) auto

lemma col_sum_len:
  assumes "all_len n df" and "col_sum df a b = Inr s"
  shows "series_len s = n"
proof -
  from assms(2) obtain x y where
    "getcol df a = Inr x" "getcol df b = Inr y" "series_add x y = Inr s"
    by (auto simp: col_sum_def ebind_def split: sum.splits)
  then show ?thesis
    using all_len_getcol [OF assms(1)] series_add_len by blast
qed

lemma col_sum3_len:
  assumes "all_len n df" and "col_sum3 df a b c = Inr s"
  shows "series_len s = n"
proof -
  from assms(2) obtain x y where
    "col_sum df a b = Inr x" "getcol df c = Inr y" "series_add x y = Inr s"
    by (auto simp: col_sum3_def ebind_def split: sum.splits)
  then show ?thesis
    using all_len_getcol [OF assms(1)] col_sum_len [OF assms(1)] series_add_len by blast
qed

section \<open>The aggregation\<close>

lemma process_merged_numeric:
  assumes "map_of merged ''WIND'' = Some (NumCol wind)"
    and "map_of merged ''CCGT'' = Some (NumCol ccgt)"
    and "map_of merged ''OCGT'' = Some (NumCol ocgt)"
    and "map_of merged ''COAL'' = Some (NumCol coal)"
    and "map_of merged ''OIL'' = Some (NumCol oil)"
    and "map_of merged ''NPSHYD'' = Some (NumCol npshyd)"
    and "map_of merged ''BIOMASS'' = Some (NumCol biomass)"
    and "map_of merged ''NUCLEAR'' = Some (NumCol nuclear)"
    and "map_of merged ''EMBEDDED_WIND_GENERATION'' = Some (NumCol ewind)"
    and "map_of merged ''EMBEDDED_SOLAR_GENERATION'' = Some (NumCol esolar)"
  shows "process_merged merged =
    (let tw = map2 fadd wind ewind; tg = map2 fadd ccgt ocgt;
         tr = map2 fadd (map2 fadd tw esolar) npshyd;
         tf = map2 fadd (map2 fadd tg coal) oil;
         tlc = map2 fadd (map2 fadd tr biomass) nuclear;
         m = setcol (setcol (setcol (setcol (setcol merged ''TOTAL_WIND'' (NumCol tw))
               ''TOTAL_GAS'' (NumCol tg)) ''TOTAL_RENEWABLE'' (NumCol tr))
               ''TOTAL_FOSSIL_FUELS'' (NumCol tf)) ''TOTAL_LOW_CARBON'' (NumCol tlc)
     in (m, Inr (round_frame m)))"
  using assms
  by (simp add: process_merged_def col_sum_def col_sum3_def getcol_def ebind_def
      map_of_setcol Let_def)

lemma process_merged_Inr:
  assumes "snd (process_merged merged) = Inr out"
  shows "out = round_frame (fst (process_merged merged))"
  using assms
  by (auto simp: process_merged_def Let_def split: sum.splits)

lemma process_merged_steps:
  assumes "snd (process_merged merged) = Inr out"
  obtains tw tg tr tf tlc where
    "col_sum merged ''WIND'' ''EMBEDDED_WIND_GENERATION'' = Inr tw"
    "col_sum (setcol merged ''TOTAL_WIND'' tw) ''CCGT'' ''OCGT'' = Inr tg"
    "col_sum3 (setcol (setcol merged ''TOTAL_WIND'' tw) ''TOTAL_GAS'' tg)
        ''TOTAL_WIND'' ''EMBEDDED_SOLAR_GENERATION'' ''NPSHYD'' = Inr tr"
    "col_sum3 (setcol (setcol (setcol merged ''TOTAL_WIND'' tw) ''TOTAL_GAS'' tg)
        ''TOTAL_RENEWABLE'' tr) ''TOTAL_GAS'' ''COAL'' ''OIL'' = Inr tf"
    "col_sum3 (setcol (setcol (setcol (setcol merged ''TOTAL_WIND'' tw) ''TOTAL_GAS'' tg)
        ''TOTAL_RENEWABLE'' tr) ''TOTAL_FOSSIL_FUELS'' tf)
        ''TOTAL_RENEWABLE'' ''BIOMASS'' ''NUCLEAR'' = Inr tlc"
    "fst (process_merged merged) =
       setcol (setcol (setcol (setcol (setcol merged ''TOTAL_WIND'' tw) ''TOTAL_GAS'' tg)
        ''TOTAL_RENEWABLE'' tr) ''TOTAL_FOSSIL_FUELS'' tf) ''TOTAL_LOW_CARBON'' tlc"
  using assms
  by (auto simp: process_merged_def Let_def split: sum.splits)

lemma process_merged_all_len:
  assumes "snd (process_merged merged) = Inr out" and "all_len n merged"
  shows "all_len n out"
proof -
  from assms(1) obtain tw tg tr tf tlc where
    s1: "col_sum merged ''WIND'' ''EMBEDDED_WIND_GENERATION'' = Inr tw" and
    s2: "col_sum (setcol merged ''TOTAL_WIND'' tw) ''CCGT'' ''OCGT'' = Inr tg" and
    s3: "col_sum3 (setcol (setcol merged ''TOTAL_WIND'' tw) ''TOTAL_GAS'' tg)
        ''TOTAL_WIND'' ''EMBEDDED_SOLAR_GENERATION'' ''NPSHYD'' = Inr tr" and
    s4: "col_sum3 (setcol (setcol (setcol merged ''TOTAL_WIND'' tw) ''TOTAL_GAS'' tg)
        ''TOTAL_RENEWABLE'' tr) ''TOTAL_GAS'' ''COAL'' ''OIL'' = Inr tf" and
    s5: "col_sum3 (setcol (setcol (setcol (setcol merged ''TOTAL_WIND'' tw) ''TOTAL_GAS'' tg)
        ''TOTAL_RENEWABLE'' tr) ''TOTAL_FOSSIL_FUELS'' tf)
        ''TOTAL_RENEWABLE'' ''BIOMASS'' ''NUCLEAR'' = Inr tlc" and
    m: "fst (process_merged merged) =
       setcol (setcol (setcol (setcol (setcol merged ''TOTAL_WIND'' tw) ''TOTAL_GAS'' tg)
        ''TOTAL_RENEWABLE'' tr) ''TOTAL_FOSSIL_FUELS'' tf) ''TOTAL_LOW_CARBON'' tlc"
    by (rule process_merged_steps)
  have a1: "all_len n (setcol merged ''TOTAL_WIND'' tw)"
    using all_len_setcol [OF assms(2) col_sum_len [OF assms(2) s1]] .
  have a2: "all_len n (setcol (setcol merged ''TOTAL_WIND'' tw) ''TOTAL_GAS'' tg)"
    using all_len_setcol [OF a1 col_sum_len [OF a1 s2]] .
  have a3: "all_len n (setcol (setcol (setcol merged ''TOTAL_WIND'' tw) ''TOTAL_GAS'' tg)
        ''TOTAL_RENEWABLE'' tr)"
    using all_len_setcol [OF a2 col_sum3_len [OF a2 s3]] .
  have a4: "all_len n (setcol (setcol (setcol (setcol merged ''TOTAL_WIND'' tw) ''TOTAL_GAS'' tg)
        ''TOTAL_RENEWABLE'' tr) ''TOTAL_FOSSIL_FUELS'' tf)"
    using all_len_setcol [OF a3 col_sum3_len [OF a3 s4]] .
  have a5: "all_len n (fst (process_merged merged))"
    unfolding m using all_len_setcol [OF a4 col_sum3_len [OF a4 s5]] .
  show ?thesis
    using process_merged_Inr [OF assms(1)] a5 by (simp add: all_len_round)
qed

text \<open>The aggregation on the examples.\<close>

lemma fine_row_columns:
  "map_of fine_row ''WIND'' = Some (NumCol [100])"
  "map_of fine_row ''CCGT'' = Some (NumCol [51201 / 256])"
  "map_of fine_row ''OCGT'' = Some (NumCol [12801 / 256])"
  "map_of fine_row ''COAL'' = Some (NumCol [10])"
  "map_of fine_row ''OIL'' = Some (NumCol [5])"
  "map_of fine_row ''NPSHYD'' = Some (NumCol [2])"
  "map_of fine_row ''BIOMASS'' = Some (NumCol [3])"
  "map_of fine_row ''NUCLEAR'' = Some (NumCol [400])"
  "map_of fine_row ''EMBEDDED_WIND_GENERATION'' = Some (NumCol [20])"
  "map_of fine_row ''EMBEDDED_SOLAR_GENERATION'' = Some (NumCol [15])"
  by (simp_all add: fine_row_def)

lemma process_merged_fine_row:
  "process_merged fine_row =
     (let m = fine_row @
        [(''TOTAL_WIND'', NumCol [120]), (''TOTAL_GAS'', NumCol [32001 / 128]),
         (''TOTAL_RENEWABLE'', NumCol [137]), (''TOTAL_FOSSIL_FUELS'', NumCol [33921 / 128]),
         (''TOTAL_LOW_CARBON'', NumCol [540])]
      in (m, Inr (round_frame m)))"
  using process_merged_numeric [OF fine_row_columns]
  by (simp add: Let_def binary64_sums setcol_def fine_row_def)

lemma process_merged_example:
  "snd (process_merged merged_example) = Inr written_example"
proof -
  have h: "map_of merged_example ''WIND'' = Some (NumCol [100])"
    "map_of merged_example ''CCGT'' = Some (NumCol [51201 / 256])"
    "map_of merged_example ''OCGT'' = Some (NumCol [12801 / 256])"
    "map_of merged_example ''COAL'' = Some (NumCol [10])"
    "map_of merged_example ''OIL'' = Some (NumCol [5])"
    "map_of merged_example ''NPSHYD'' = Some (NumCol [2])"
    "map_of merged_example ''BIOMASS'' = Some (NumCol [3])"
    "map_of merged_example ''NUCLEAR'' = Some (NumCol [400])"
    "map_of merged_example ''EMBEDDED_WIND_GENERATION'' = Some (NumCol [20])"
    "map_of merged_example ''EMBEDDED_SOLAR_GENERATION'' = Some (NumCol [15])"
    by (simp_all add: merged_example_def)
  show ?thesis
    using process_merged_numeric [OF h]
    by (simp add: Let_def binary64_sums round2_values setcol_def round_frame_def
        merged_example_def written_example_def)
qed

text \<open>The steps before the aggregation of a run on \<open>bmrs_example\<close> and \<open>neso_example\<close> at the instant 7200.\<close>

lemma example_run:
  "fetch_bmrs_fuelinst no_text 7200 24 (Response 200 (Some bmrs_example))
     = Inr (bmrs_example @ [(''timestamp'', TimeCol (replicate 9 3600))])"
  "fetch_neso_demand no_text 7200 24 (Csv neso_example) = Inr neso_example_fetched"
  "merge_datasets (bmrs_example @ [(''timestamp'', TimeCol (replicate 9 3600))])
     neso_example_fetched = Inr merged_example"
  by code_simp+

text \<open>
  Claim C1, as amended. On a table whose ten source columns are number columns with
  values of magnitude at most \<open>10 ^ 12\<close>, \<^verbatim>\<open>process_merged\<close> computes the five totals by
  binary64 addition on the unrounded values, each total from the unrounded totals before
  it: in the table it assigns to, TOTAL_WIND = WIND + EMBEDDED_WIND_GENERATION,
  TOTAL_GAS = CCGT + OCGT, TOTAL_RENEWABLE = TOTAL_WIND + EMBEDDED_SOLAR_GENERATION +
  NPSHYD, TOTAL_FOSSIL_FUELS = TOTAL_GAS + COAL + OIL and TOTAL_LOW_CARBON =
  TOTAL_RENEWABLE + BIOMASS + NUCLEAR hold on every row, with the sums as binary64
  addition gives them. The table it returns is that table after \<^verbatim>\<open>round(2)\<close>, so every
  returned total is the rounding of the unrounded total. The bound keeps the sums and
  their hundredfold within the range where the numbers of the model are those of the
  source.
\<close>

theorem process_merged_totals:
  assumes "map_of merged ''WIND'' = Some (NumCol wind)"
    and "map_of merged ''CCGT'' = Some (NumCol ccgt)"
    and "map_of merged ''OCGT'' = Some (NumCol ocgt)"
    and "map_of merged ''COAL'' = Some (NumCol coal)"
    and "map_of merged ''OIL'' = Some (NumCol oil)"
    and "map_of merged ''NPSHYD'' = Some (NumCol npshyd)"
    and "map_of merged ''BIOMASS'' = Some (NumCol biomass)"
    and "map_of merged ''NUCLEAR'' = Some (NumCol nuclear)"
    and "map_of merged ''EMBEDDED_WIND_GENERATION'' = Some (NumCol ewind)"
    and "map_of merged ''EMBEDDED_SOLAR_GENERATION'' = Some (NumCol esolar)"
    and "list_all (within_magnitude (10 ^ 12))
           [wind, ccgt, ocgt, coal, oil, npshyd, biomass, nuclear, ewind, esolar]"
  shows "let m = fst (process_merged merged);
             out = round_frame m;
             total_wind = map2 fadd wind ewind;
             total_gas = map2 fadd ccgt ocgt;
             total_renewable = map2 fadd (map2 fadd total_wind esolar) npshyd;
             total_fossil = map2 fadd (map2 fadd total_gas coal) oil;
             total_low_carbon = map2 fadd (map2 fadd total_renewable biomass) nuclear
         in snd (process_merged merged) = Inr out \<and>
            getcol m ''TOTAL_WIND'' = Inr (NumCol total_wind) \<and>
            getcol m ''TOTAL_GAS'' = Inr (NumCol total_gas) \<and>
            getcol m ''TOTAL_RENEWABLE'' = Inr (NumCol total_renewable) \<and>
            getcol m ''TOTAL_FOSSIL_FUELS'' = Inr (NumCol total_fossil) \<and>
            getcol m ''TOTAL_LOW_CARBON'' = Inr (NumCol total_low_carbon) \<and>
            getcol out ''TOTAL_WIND'' = Inr (NumCol (map round2 total_wind)) \<and>
            getcol out ''TOTAL_GAS'' = Inr (NumCol (map round2 total_gas)) \<and>
            getcol out ''TOTAL_RENEWABLE'' = Inr (NumCol (map round2 total_renewable)) \<and>
            getcol out ''TOTAL_FOSSIL_FUELS'' = Inr (NumCol (map round2 total_fossil)) \<and>
            getcol out ''TOTAL_LOW_CARBON'' = Inr (NumCol (map round2 total_low_carbon))"
  using process_merged_numeric [OF assms(1-10)]
  by (simp add: Let_def getcol_def map_of_setcol map_of_round_frame)

text \<open>
  The row of the specification's scenario: the returned totals are 120, 250, 137, 265
  and 540.
\<close>

theorem process_merged_totals_witness:
  "map_of example_row ''WIND'' = Some (NumCol [100]) \<and>
   map_of example_row ''CCGT'' = Some (NumCol [200]) \<and>
   map_of example_row ''OCGT'' = Some (NumCol [50]) \<and>
   map_of example_row ''COAL'' = Some (NumCol [10]) \<and>
   map_of example_row ''OIL'' = Some (NumCol [5]) \<and>
   map_of example_row ''NPSHYD'' = Some (NumCol [2]) \<and>
   map_of example_row ''BIOMASS'' = Some (NumCol [3]) \<and>
   map_of example_row ''NUCLEAR'' = Some (NumCol [400]) \<and>
   map_of example_row ''EMBEDDED_WIND_GENERATION'' = Some (NumCol [20]) \<and>
   map_of example_row ''EMBEDDED_SOLAR_GENERATION'' = Some (NumCol [15]) \<and>
   list_all (within_magnitude (10 ^ 12))
     [[100], [200], [50], [10], [5], [2], [3], [400], [20], [15]] \<and>
   snd (process_merged example_row) = Inr (round_frame (fst (process_merged example_row))) \<and>
   getcol (round_frame (fst (process_merged example_row))) ''TOTAL_WIND''
     = Inr (NumCol [120]) \<and>
   getcol (round_frame (fst (process_merged example_row))) ''TOTAL_GAS''
     = Inr (NumCol [250]) \<and>
   getcol (round_frame (fst (process_merged example_row))) ''TOTAL_RENEWABLE''
     = Inr (NumCol [137]) \<and>
   getcol (round_frame (fst (process_merged example_row))) ''TOTAL_FOSSIL_FUELS''
     = Inr (NumCol [265]) \<and>
   getcol (round_frame (fst (process_merged example_row))) ''TOTAL_LOW_CARBON''
     = Inr (NumCol [540])"
proof -
  have h: "map_of example_row ''WIND'' = Some (NumCol [100])"
    "map_of example_row ''CCGT'' = Some (NumCol [200])"
    "map_of example_row ''OCGT'' = Some (NumCol [50])"
    "map_of example_row ''COAL'' = Some (NumCol [10])"
    "map_of example_row ''OIL'' = Some (NumCol [5])"
    "map_of example_row ''NPSHYD'' = Some (NumCol [2])"
    "map_of example_row ''BIOMASS'' = Some (NumCol [3])"
    "map_of example_row ''NUCLEAR'' = Some (NumCol [400])"
    "map_of example_row ''EMBEDDED_WIND_GENERATION'' = Some (NumCol [20])"
    "map_of example_row ''EMBEDDED_SOLAR_GENERATION'' = Some (NumCol [15])"
    by (simp_all add: example_row_def)
  have b: "list_all (within_magnitude (10 ^ 12))
      [[100], [200], [50], [10], [5], [2], [3], [400], [20], [15]]"
    by (simp add: within_magnitude_def)
  show ?thesis
    using process_merged_totals [OF h b] h b
    by (simp add: Let_def binary64_sums round2_values)
qed

text \<open>
  Claim C1 as it is stated fails on the returned table. With CCGT = 200.00390625 and
  OCGT = 50.00390625 the sum of the two source values is 250.0078125, the returned
  TOTAL_GAS is 250.01, and the returned CCGT and OCGT are 200.00 and 50.00, whose sum is
  250.00: the returned total is neither the sum of the source values nor the sum of the
  returned ones. All the numbers of this example are binary64 numbers and the sum is
  exact.
\<close>

theorem process_merged_rounding_counterexample:
  "snd (process_merged fine_row) = Inr (round_frame (fst (process_merged fine_row))) \<and>
   col_sum fine_row ''CCGT'' ''OCGT'' = Inr (NumCol [32001 / 128]) \<and>
   col_sum (round_frame (fst (process_merged fine_row))) ''CCGT'' ''OCGT''
     = Inr (NumCol [250]) \<and>
   getcol (round_frame (fst (process_merged fine_row))) ''TOTAL_GAS''
     = Inr (NumCol [25001 / 100]) \<and>
   getcol (round_frame (fst (process_merged fine_row))) ''TOTAL_GAS''
     \<noteq> col_sum (round_frame (fst (process_merged fine_row))) ''CCGT'' ''OCGT'' \<and>
   getcol (round_frame (fst (process_merged fine_row))) ''TOTAL_GAS''
     \<noteq> col_sum fine_row ''CCGT'' ''OCGT''"
  unfolding process_merged_fine_row Let_def
  by (simp add: col_sum_def getcol_def ebind_def map_of_round_frame fine_row_def
      binary64_sums round2_values)

text \<open>
  Claim C5. The table that \<^verbatim>\<open>process_merged\<close> returns is the last table it built,
  rounded: every number in it has at most two decimal digits. The table that a run
  writes to the output file is that returned table, so the same holds for the file.
\<close>

theorem output_two_decimals:
  "(snd (process_merged merged) = Inr out \<longrightarrow> frame_two_decimals out) \<and>
   (fetch_pipeline parse console now1 http now2 csv d old = (Inr (), new) \<longrightarrow>
      (\<exists>written. new = Some written \<and> frame_two_decimals written))"
proof (intro conjI impI)
  assume "snd (process_merged merged) = Inr out"
  then show "frame_two_decimals out"
    using process_merged_Inr frame_two_decimals_round by metis
next
  assume "fetch_pipeline parse console now1 http now2 csv d old = (Inr (), new)"
  then obtain merged processed where
    "snd (process_merged merged) = Inr processed" "new = Some processed"
    by (auto simp: fetch_pipeline_def to_csv_def split: sum.splits prod.splits disk.splits)
  then show "\<exists>written. new = Some written \<and> frame_two_decimals written"
    using process_merged_Inr frame_two_decimals_round by metis
qed

text \<open>
  The row with CCGT = 200.00390625 and OCGT = 50.00390625, and a run on the example
  sources whose CCGT readings average to 200.00390625: every number returned and
  written has two decimals.
\<close>

theorem output_two_decimals_witness:
  "snd (process_merged fine_row) = Inr (round_frame (fst (process_merged fine_row))) \<and>
   frame_two_decimals (round_frame (fst (process_merged fine_row))) \<and>
   fetch_pipeline no_text quiet 7200 (Response 200 (Some bmrs_example)) 7200
     (Csv neso_example) DiskOk None = (Inr (), Some written_example) \<and>
   frame_two_decimals written_example"
proof -
  have a: "snd (process_merged fine_row) = Inr (round_frame (fst (process_merged fine_row)))"
    by (simp add: process_merged_fine_row Let_def)
  have b: "fetch_pipeline no_text quiet 7200 (Response 200 (Some bmrs_example)) 7200
      (Csv neso_example) DiskOk None = (Inr (), Some written_example)"
    by (simp add: fetch_pipeline_def print_line_def quiet_def to_csv_def example_run
        process_merged_example)
  show ?thesis
    using output_two_decimals [of fine_row "round_frame (fst (process_merged fine_row))"
        no_text quiet 7200 "Response 200 (Some bmrs_example)" 7200 "Csv neso_example"
        DiskOk None "Some written_example"] a b
    by simp
qed

text \<open>
  Claim C10. A call of \<^verbatim>\<open>process_merged\<close> that returns leaves its argument changed: the
  argument then has the five total columns, each holding the unrounded sum (TOTAL_WIND
  and TOTAL_GAS the sums of the argument's own source columns, the other three the sums
  over the totals before them), every column with another name is as it was, the
  columns the argument had keep their places and the new ones follow them, and the
  returned table is the rounded copy of the argument as the call leaves it.
\<close>

theorem process_merged_in_place:
  assumes "snd (process_merged merged) = Inr out"
  shows "let m = fst (process_merged merged) in
     getcol m ''TOTAL_WIND'' = col_sum merged ''WIND'' ''EMBEDDED_WIND_GENERATION'' \<and>
     getcol m ''TOTAL_GAS'' = col_sum merged ''CCGT'' ''OCGT'' \<and>
     getcol m ''TOTAL_RENEWABLE'' =
       col_sum3 m ''TOTAL_WIND'' ''EMBEDDED_SOLAR_GENERATION'' ''NPSHYD'' \<and>
     getcol m ''TOTAL_FOSSIL_FUELS'' = col_sum3 m ''TOTAL_GAS'' ''COAL'' ''OIL'' \<and>
     getcol m ''TOTAL_LOW_CARBON'' = col_sum3 m ''TOTAL_RENEWABLE'' ''BIOMASS'' ''NUCLEAR'' \<and>
     set aggregate_names \<subseteq> set (columns m) \<and>
     (\<forall>c. c \<notin> set aggregate_names \<longrightarrow> map_of m c = map_of merged c) \<and>
     columns m = columns merged @ filter (\<lambda>c. c \<notin> set (columns merged)) aggregate_names \<and>
     out = round_frame m"
proof -
  from assms obtain tw tg tr tf tlc where
    s1: "col_sum merged ''WIND'' ''EMBEDDED_WIND_GENERATION'' = Inr tw" and
    s2: "col_sum (setcol merged ''TOTAL_WIND'' tw) ''CCGT'' ''OCGT'' = Inr tg" and
    s3: "col_sum3 (setcol (setcol merged ''TOTAL_WIND'' tw) ''TOTAL_GAS'' tg)
        ''TOTAL_WIND'' ''EMBEDDED_SOLAR_GENERATION'' ''NPSHYD'' = Inr tr" and
    s4: "col_sum3 (setcol (setcol (setcol merged ''TOTAL_WIND'' tw) ''TOTAL_GAS'' tg)
        ''TOTAL_RENEWABLE'' tr) ''TOTAL_GAS'' ''COAL'' ''OIL'' = Inr tf" and
    s5: "col_sum3 (setcol (setcol (setcol (setcol merged ''TOTAL_WIND'' tw) ''TOTAL_GAS'' tg)
        ''TOTAL_RENEWABLE'' tr) ''TOTAL_FOSSIL_FUELS'' tf)
        ''TOTAL_RENEWABLE'' ''BIOMASS'' ''NUCLEAR'' = Inr tlc" and
    m: "fst (process_merged merged) =
       setcol (setcol (setcol (setcol (setcol merged ''TOTAL_WIND'' tw) ''TOTAL_GAS'' tg)
        ''TOTAL_RENEWABLE'' tr) ''TOTAL_FOSSIL_FUELS'' tf) ''TOTAL_LOW_CARBON'' tlc"
    by (rule process_merged_steps)
  have out: "out = round_frame (fst (process_merged merged))"
    using assms by (rule process_merged_Inr)
  have a1: "getcol (fst (process_merged merged)) ''TOTAL_WIND'' =
      col_sum merged ''WIND'' ''EMBEDDED_WIND_GENERATION''"
    using s1 by (simp add: m getcol_def map_of_setcol)
  have a2: "getcol (fst (process_merged merged)) ''TOTAL_GAS'' =
      col_sum merged ''CCGT'' ''OCGT''"
    using s2 by (simp add: m getcol_def col_sum_def map_of_setcol)
  have a3: "getcol (fst (process_merged merged)) ''TOTAL_RENEWABLE'' =
      col_sum3 (fst (process_merged merged))
        ''TOTAL_WIND'' ''EMBEDDED_SOLAR_GENERATION'' ''NPSHYD''"
    using s3 by (simp add: m getcol_def col_sum_def col_sum3_def map_of_setcol)
  have a4: "getcol (fst (process_merged merged)) ''TOTAL_FOSSIL_FUELS'' =
      col_sum3 (fst (process_merged merged)) ''TOTAL_GAS'' ''COAL'' ''OIL''"
    using s4 by (simp add: m getcol_def col_sum_def col_sum3_def map_of_setcol)
  have a5: "getcol (fst (process_merged merged)) ''TOTAL_LOW_CARBON'' =
      col_sum3 (fst (process_merged merged)) ''TOTAL_RENEWABLE'' ''BIOMASS'' ''NUCLEAR''"
    using s5 by (simp add: m getcol_def col_sum_def col_sum3_def map_of_setcol)
  have cols: "columns (fst (process_merged merged)) =
      columns merged @ filter (\<lambda>c. c \<notin> set (columns merged)) aggregate_names"
    by (simp add: m columns_setcol aggregate_names_def)
  have sub: "set aggregate_names \<subseteq> set (columns (fst (process_merged merged)))"
    unfolding cols by auto
  have keep: "\<forall>c. c \<notin> set aggregate_names \<longrightarrow>
      map_of (fst (process_merged merged)) c = map_of merged c"
    by (simp add: m map_of_setcol aggregate_names_def)
  show ?thesis
    unfolding Let_def using a1 a2 a3 a4 a5 sub keep cols out by blast
qed

text \<open>
  On the row with CCGT = 200.00390625 and OCGT = 50.00390625 the argument ends with
  TOTAL_GAS = 250.0078125, unrounded, its CCGT column is still 200.00390625, and the
  five totals stand after the ten columns it had.
\<close>

theorem process_merged_in_place_witness:
  "snd (process_merged fine_row) = Inr (round_frame (fst (process_merged fine_row))) \<and>
   getcol (fst (process_merged fine_row)) ''TOTAL_GAS'' = Inr (NumCol [32001 / 128]) \<and>
   map_of (fst (process_merged fine_row)) ''CCGT'' = Some (NumCol [51201 / 256]) \<and>
   columns (fst (process_merged fine_row)) =
     [''WIND'', ''CCGT'', ''OCGT'', ''COAL'', ''OIL'', ''NPSHYD'', ''BIOMASS'', ''NUCLEAR'',
      ''EMBEDDED_WIND_GENERATION'', ''EMBEDDED_SOLAR_GENERATION'',
      ''TOTAL_WIND'', ''TOTAL_GAS'', ''TOTAL_RENEWABLE'', ''TOTAL_FOSSIL_FUELS'',
      ''TOTAL_LOW_CARBON'']"
proof -
  have h: "snd (process_merged fine_row) = Inr (round_frame (fst (process_merged fine_row)))"
    by (simp add: process_merged_fine_row Let_def)
  have g: "col_sum fine_row ''CCGT'' ''OCGT'' = Inr (NumCol [32001 / 128])"
    by (simp add: col_sum_def getcol_def ebind_def fine_row_columns binary64_sums)
  have c: "''CCGT'' \<notin> set aggregate_names"
    by (simp add: aggregate_names_def)
  have k: "map_of fine_row ''CCGT'' = Some (NumCol [51201 / 256])"
    by (simp add: fine_row_def)
  have l: "columns fine_row @ filter (\<lambda>c. c \<notin> set (columns fine_row)) aggregate_names =
     [''WIND'', ''CCGT'', ''OCGT'', ''COAL'', ''OIL'', ''NPSHYD'', ''BIOMASS'', ''NUCLEAR'',
      ''EMBEDDED_WIND_GENERATION'', ''EMBEDDED_SOLAR_GENERATION'',
      ''TOTAL_WIND'', ''TOTAL_GAS'', ''TOTAL_RENEWABLE'', ''TOTAL_FOSSIL_FUELS'',
      ''TOTAL_LOW_CARBON'']"
    by (simp add: columns_def fine_row_def aggregate_names_def)
  show ?thesis
    using process_merged_in_place [OF h] h g c k l
    by (simp add: Let_def)
qed

section \<open>The timestamps of the two fetchers\<close>

lemma map2_add_offsets:
  "map2 (+) ds (map f ps) = map2 (\<lambda>d p. d + f p) ds ps"
  by (induction ds ps rule: list_induct2') simp_all

lemma to_datetime_TimeCol: "to_datetime parse raw = Inr s \<Longrightarrow> \<exists>ds. s = TimeCol ds"
  by (cases raw) (auto split: option.splits)

lemma period_offset_DeltaCol: "period_offset p = Inr off \<Longrightarrow> \<exists>ds. off = DeltaCol ds"
  by (cases p) auto

lemma stamp_TimeCol:
  assumes "to_datetime parse raw = Inr d" and "period_offset p = Inr off"
    and "series_add d off = Inr ts"
  shows "\<exists>xs. ts = TimeCol xs"
  using assms to_datetime_TimeCol [of parse raw d] period_offset_DeltaCol [of p off]
  by auto

lemma bmrs_add_timestamp_eq:
  assumes "getcol df ''settlementDate'' = Inr raw"
    and "to_datetime parse raw = Inr (TimeCol ds)"
    and "getcol df ''settlementPeriod'' = Inr (NumCol ps)"
  shows "bmrs_add_timestamp parse df =
     Inr (setcol (setcol df ''settlementDate'' (TimeCol ds)) ''timestamp''
            (TimeCol (map2 (\<lambda>d p. d + minutes ((p - 1) * 30)) ds ps)))"
  using assms
  by (simp add: bmrs_add_timestamp_def ebind_def getcol_def map_of_setcol Let_def
      map2_add_offsets split: option.splits)

lemma neso_add_timestamp_eq:
  assumes "getcol df ''SETTLEMENT_DATE'' = Inr raw"
    and "to_datetime parse raw = Inr (TimeCol ds)"
    and "getcol df ''SETTLEMENT_PERIOD'' = Inr (NumCol ps)"
  shows "neso_add_timestamp parse df =
     Inr (setcol (setcol df ''SETTLEMENT_DATE'' (TimeCol ds)) ''timestamp''
            (TimeCol (map2 (\<lambda>d p. d + minutes ((p - 1) * 30)) ds ps)))"
  using assms
  by (simp add: neso_add_timestamp_def ebind_def getcol_def map_of_setcol Let_def
      map2_add_offsets split: option.splits)

lemma bmrs_add_timestamp_TimeCol:
  assumes "bmrs_add_timestamp parse df = Inr stamped"
  shows "\<exists>ts. getcol stamped ''timestamp'' = Inr (TimeCol ts)"
  using assms
  by (auto simp: bmrs_add_timestamp_def ebind_def Let_def getcol_def map_of_setcol
      split: sum.splits option.splits dest: stamp_TimeCol)

lemma neso_add_timestamp_TimeCol:
  assumes "neso_add_timestamp parse df = Inr stamped"
  shows "\<exists>ts. getcol stamped ''timestamp'' = Inr (TimeCol ts)"
  using assms
  by (auto simp: neso_add_timestamp_def ebind_def Let_def getcol_def map_of_setcol
      split: sum.splits option.splits dest: stamp_TimeCol)

lemma within_window_eq:
  assumes "getcol df ''timestamp'' = Inr (TimeCol ts)"
  shows "within_window start now df =
    Inr (select_mask (map (\<lambda>t. start \<le> t \<and> t \<le> now) ts) df)"
  using assms by (simp add: within_window_def ebind_def)

lemma within_window_zero:
  assumes "getcol df ''timestamp'' = Inr (TimeCol ts)"
  shows "within_window (now - hours_delta 0) now df =
    Inr (select_mask (map (\<lambda>t. t = now) ts) df)"
proof -
  have "(\<lambda>t. now - hours_delta 0 \<le> t \<and> t \<le> now) = (\<lambda>t. t = now)"
    by (auto simp: hours_delta_def)
  then show ?thesis
    using within_window_eq [OF assms, of "now - hours_delta 0" now] by simp
qed

text \<open>
  Claim C2. Both fetchers give every source row the timestamp D + (P - 1) * 30 minutes,
  where D is the row's converted settlement date and P its settlement period, whatever
  the period is: on a source whose date column converts and whose period column holds
  numbers, the fetcher returns the source table (for the demand file, its four selected
  columns) with that timestamp column added, cut to the rows inside the time window.
\<close>

theorem timestamp_formula:
  assumes "\<not> (400 \<le> status \<and> status < 600)"
    and "getcol df ''settlementDate'' = Inr raw"
    and "to_datetime parse raw = Inr (TimeCol ds)"
    and "getcol df ''settlementPeriod'' = Inr (NumCol ps)"
    and "getcol df0 ''SETTLEMENT_DATE'' = Inr raw0"
    and "to_datetime parse raw0 = Inr (TimeCol ds0)"
    and "getcol df0 ''SETTLEMENT_PERIOD'' = Inr (NumCol ps0)"
    and "getcol df0 ''EMBEDDED_WIND_GENERATION'' = Inr ewind"
    and "getcol df0 ''EMBEDDED_SOLAR_GENERATION'' = Inr esolar"
  shows
    "(let ts = map2 (\<lambda>d p. d + minutes ((p - 1) * 30)) ds ps;
          start = now - hours_delta hours
      in fetch_bmrs_fuelinst parse now hours (Response status (Some df)) =
           Inr (select_mask (map (\<lambda>t. start \<le> t \<and> t \<le> now) ts)
                  (setcol (setcol df ''settlementDate'' (TimeCol ds)) ''timestamp''
                     (TimeCol ts)))) \<and>
     (let ts0 = map2 (\<lambda>d p. d + minutes ((p - 1) * 30)) ds0 ps0;
          start0 = now0 - hours_delta hours0
      in fetch_neso_demand parse now0 hours0 (Csv df0) =
           Inr (select_mask (map (\<lambda>t. start0 \<le> t \<and> t \<le> now0) ts0)
                  [(''SETTLEMENT_DATE'', TimeCol ds0), (''SETTLEMENT_PERIOD'', NumCol ps0),
                   (''EMBEDDED_WIND_GENERATION'', ewind),
                   (''EMBEDDED_SOLAR_GENERATION'', esolar),
                   (''timestamp'', TimeCol ts0)]))"
proof -
  let ?ts = "map2 (\<lambda>d p. d + minutes ((p - 1) * 30)) ds ps"
  let ?stamped = "setcol (setcol df ''settlementDate'' (TimeCol ds)) ''timestamp'' (TimeCol ?ts)"
  have "bmrs_add_timestamp parse df = Inr ?stamped"
    using assms(2-4) by (rule bmrs_add_timestamp_eq)
  moreover have "getcol ?stamped ''timestamp'' = Inr (TimeCol ?ts)"
    by (simp add: getcol_def map_of_setcol)
  ultimately have bmrs: "fetch_bmrs_fuelinst parse now hours (Response status (Some df)) =
      Inr (select_mask (map (\<lambda>t. now - hours_delta hours \<le> t \<and> t \<le> now) ?ts) ?stamped)"
    using assms(1) within_window_eq [of ?stamped ?ts]
    by (simp add: fetch_bmrs_fuelinst_def Let_def ebind_def)
  let ?ts0 = "map2 (\<lambda>d p. d + minutes ((p - 1) * 30)) ds0 ps0"
  let ?sel = "[(''SETTLEMENT_DATE'', raw0), (''SETTLEMENT_PERIOD'', NumCol ps0),
               (''EMBEDDED_WIND_GENERATION'', ewind), (''EMBEDDED_SOLAR_GENERATION'', esolar)]"
  let ?stamped0 = "[(''SETTLEMENT_DATE'', TimeCol ds0), (''SETTLEMENT_PERIOD'', NumCol ps0),
                   (''EMBEDDED_WIND_GENERATION'', ewind),
                   (''EMBEDDED_SOLAR_GENERATION'', esolar),
                   (''timestamp'', TimeCol ?ts0)]"
  have sel: "select_cols df0 [''SETTLEMENT_DATE'', ''SETTLEMENT_PERIOD'',
                    ''EMBEDDED_WIND_GENERATION'', ''EMBEDDED_SOLAR_GENERATION''] = Inr ?sel"
    using assms(5,7,8,9) by (simp add: ebind_def)
  have "neso_add_timestamp parse ?sel =
      Inr (setcol (setcol ?sel ''SETTLEMENT_DATE'' (TimeCol ds0)) ''timestamp'' (TimeCol ?ts0))"
    by (rule neso_add_timestamp_eq [where raw = raw0]) (simp_all add: getcol_def assms(6))
  then have st: "neso_add_timestamp parse ?sel = Inr ?stamped0"
    by (simp add: setcol_def)
  have ts0: "getcol ?stamped0 ''timestamp'' = Inr (TimeCol ?ts0)"
    by (simp add: getcol_def)
  have "fetch_neso_demand parse now0 hours0 (Csv df0) =
      within_window (now0 - hours_delta hours0) now0 ?stamped0"
    by (simp add: fetch_neso_demand_def sel st ebind_def del: select_cols.simps)
  also have "\<dots> =
      Inr (select_mask (map (\<lambda>t. now0 - hours_delta hours0 \<le> t \<and> t \<le> now0) ?ts0) ?stamped0)"
    using ts0 by (rule within_window_eq)
  finally have neso: "fetch_neso_demand parse now0 hours0 (Csv df0) =
      Inr (select_mask (map (\<lambda>t. now0 - hours_delta hours0 \<le> t \<and> t \<le> now0) ?ts0) ?stamped0)" .
  show ?thesis
    unfolding Let_def using bmrs neso by blast
qed

text \<open>
  Periods 1, 48 and 2 over two days give the instants 0, 84600 and 88200; the call at
  90000 with a window of 24 hours keeps the last two. Periods 3 and 4 of day 0 give 3600
  and 5400.
\<close>

theorem timestamp_formula_witness:
  "\<not> (400 \<le> (200::nat) \<and> (200::nat) < 600) \<and>
   getcol bmrs_two_days ''settlementDate'' = Inr (TimeCol [0, 0, 86400]) \<and>
   to_datetime no_text (TimeCol [0, 0, 86400]) = Inr (TimeCol [0, 0, 86400]) \<and>
   getcol bmrs_two_days ''settlementPeriod'' = Inr (NumCol [1, 48, 2]) \<and>
   getcol neso_example ''SETTLEMENT_DATE'' = Inr (TimeCol [0, 0]) \<and>
   to_datetime no_text (TimeCol [0, 0]) = Inr (TimeCol [0, 0]) \<and>
   getcol neso_example ''SETTLEMENT_PERIOD'' = Inr (NumCol [3, 4]) \<and>
   getcol neso_example ''EMBEDDED_WIND_GENERATION'' = Inr (NumCol [20, 21]) \<and>
   getcol neso_example ''EMBEDDED_SOLAR_GENERATION'' = Inr (NumCol [15, 16]) \<and>
   fetch_bmrs_fuelinst no_text 90000 24 (Response 200 (Some bmrs_two_days)) =
     Inr [(''settlementDate'', TimeCol [0, 86400]),
          (''settlementPeriod'', NumCol [48, 2]),
          (''fuelType'', StrCol [''WIND'', ''WIND'']),
          (''generation'', NumCol [110, 120]),
          (''timestamp'', TimeCol [84600, 88200])] \<and>
   fetch_neso_demand no_text 5400 1 (Csv neso_example) =
     Inr [(''SETTLEMENT_DATE'', TimeCol [0, 0]),
          (''SETTLEMENT_PERIOD'', NumCol [3, 4]),
          (''EMBEDDED_WIND_GENERATION'', NumCol [20, 21]),
          (''EMBEDDED_SOLAR_GENERATION'', NumCol [15, 16]),
          (''timestamp'', TimeCol [3600, 5400])]"
proof -
  have h: "\<not> (400 \<le> (200::nat) \<and> (200::nat) < 600)"
    "getcol bmrs_two_days ''settlementDate'' = Inr (TimeCol [0, 0, 86400])"
    "to_datetime no_text (TimeCol [0, 0, 86400]) = Inr (TimeCol [0, 0, 86400])"
    "getcol bmrs_two_days ''settlementPeriod'' = Inr (NumCol [1, 48, 2])"
    "getcol neso_example ''SETTLEMENT_DATE'' = Inr (TimeCol [0, 0])"
    "to_datetime no_text (TimeCol [0, 0]) = Inr (TimeCol [0, 0])"
    "getcol neso_example ''SETTLEMENT_PERIOD'' = Inr (NumCol [3, 4])"
    "getcol neso_example ''EMBEDDED_WIND_GENERATION'' = Inr (NumCol [20, 21])"
    "getcol neso_example ''EMBEDDED_SOLAR_GENERATION'' = Inr (NumCol [15, 16])"
    by (simp_all add: getcol_def bmrs_two_days_def neso_example_def)
  have b: "select_mask (map (\<lambda>t. 90000 - hours_delta 24 \<le> t \<and> t \<le> 90000)
             (map2 (\<lambda>d p. d + minutes ((p - 1) * 30)) [0, 0, 86400] [1, 48, 2]))
             (setcol (setcol bmrs_two_days ''settlementDate'' (TimeCol [0, 0, 86400]))
                ''timestamp''
                (TimeCol (map2 (\<lambda>d p. d + minutes ((p - 1) * 30)) [0, 0, 86400] [1, 48, 2])))
         = [(''settlementDate'', TimeCol [0, 86400]),
          (''settlementPeriod'', NumCol [48, 2]),
          (''fuelType'', StrCol [''WIND'', ''WIND'']),
          (''generation'', NumCol [110, 120]),
          (''timestamp'', TimeCol [84600, 88200])]"
    by (simp add: hours_delta_def minutes_def select_mask_def keep_def setcol_def
        bmrs_two_days_def)
  have n: "select_mask (map (\<lambda>t. 5400 - hours_delta 1 \<le> t \<and> t \<le> 5400)
             (map2 (\<lambda>d p. d + minutes ((p - 1) * 30)) [0, 0] [3, 4]))
             [(''SETTLEMENT_DATE'', TimeCol [0, 0]), (''SETTLEMENT_PERIOD'', NumCol [3, 4]),
              (''EMBEDDED_WIND_GENERATION'', NumCol [20, 21]),
              (''EMBEDDED_SOLAR_GENERATION'', NumCol [15, 16]),
              (''timestamp'', TimeCol (map2 (\<lambda>d p. d + minutes ((p - 1) * 30)) [0, 0] [3, 4]))]
         = [(''SETTLEMENT_DATE'', TimeCol [0, 0]),
          (''SETTLEMENT_PERIOD'', NumCol [3, 4]),
          (''EMBEDDED_WIND_GENERATION'', NumCol [20, 21]),
          (''EMBEDDED_SOLAR_GENERATION'', NumCol [15, 16]),
          (''timestamp'', TimeCol [3600, 5400])]"
    by (simp add: hours_delta_def minutes_def select_mask_def keep_def)
  show ?thesis
    using timestamp_formula [OF h, of 90000 24 5400 1] h b n
    by (simp only: Let_def simp_thms)
qed

text \<open>
  Claim C8, as amended. A fetcher called with hours = 0 that returns, returns the source
  rows whose timestamp is the clock reading of the call, and only those: the window
  from now to now has both ends, so it is the single instant now. The result is empty
  exactly when no source row has that timestamp.
\<close>

theorem fetch_hours_zero:
  "(fetch_bmrs_fuelinst parse now 0 http = Inr out \<longrightarrow>
      (\<exists>status df stamped ts.
         http = Response status (Some df) \<and>
         bmrs_add_timestamp parse df = Inr stamped \<and>
         getcol stamped ''timestamp'' = Inr (TimeCol ts) \<and>
         out = select_mask (map (\<lambda>t. t = now) ts) stamped \<and>
         getcol out ''timestamp'' = Inr (TimeCol (filter (\<lambda>t. t = now) ts)))) \<and>
   (fetch_neso_demand parse now 0 csv = Inr out0 \<longrightarrow>
      (\<exists>df0 df stamped ts.
         csv = Csv df0 \<and>
         select_cols df0 [''SETTLEMENT_DATE'', ''SETTLEMENT_PERIOD'',
           ''EMBEDDED_WIND_GENERATION'', ''EMBEDDED_SOLAR_GENERATION''] = Inr df \<and>
         neso_add_timestamp parse df = Inr stamped \<and>
         getcol stamped ''timestamp'' = Inr (TimeCol ts) \<and>
         out0 = select_mask (map (\<lambda>t. t = now) ts) stamped \<and>
         getcol out0 ''timestamp'' = Inr (TimeCol (filter (\<lambda>t. t = now) ts))))"
proof (intro conjI impI)
  assume a: "fetch_bmrs_fuelinst parse now 0 http = Inr out"
  then obtain status df stamped where
    h: "http = Response status (Some df)" and
    s: "bmrs_add_timestamp parse df = Inr stamped" and
    w: "within_window (now - hours_delta 0) now stamped = Inr out"
    by (auto simp: fetch_bmrs_fuelinst_def Let_def ebind_def
        split: http_result.splits if_splits option.splits sum.splits)
  from s obtain ts where t: "getcol stamped ''timestamp'' = Inr (TimeCol ts)"
    using bmrs_add_timestamp_TimeCol by blast
  have o: "out = select_mask (map (\<lambda>t. t = now) ts) stamped"
    using w within_window_zero [OF t, of now] by simp
  have "getcol out ''timestamp'' = Inr (TimeCol (filter (\<lambda>t. t = now) ts))"
    unfolding o using getcol_select_mask [OF t] by (simp add: keep_map_filter)
  with h s t o show "\<exists>status df stamped ts.
         http = Response status (Some df) \<and>
         bmrs_add_timestamp parse df = Inr stamped \<and>
         getcol stamped ''timestamp'' = Inr (TimeCol ts) \<and>
         out = select_mask (map (\<lambda>t. t = now) ts) stamped \<and>
         getcol out ''timestamp'' = Inr (TimeCol (filter (\<lambda>t. t = now) ts))"
    by blast
next
  assume a: "fetch_neso_demand parse now 0 csv = Inr out0"
  then obtain df0 df stamped where
    h: "csv = Csv df0" and
    c: "select_cols df0 [''SETTLEMENT_DATE'', ''SETTLEMENT_PERIOD'',
           ''EMBEDDED_WIND_GENERATION'', ''EMBEDDED_SOLAR_GENERATION''] = Inr df" and
    s: "neso_add_timestamp parse df = Inr stamped" and
    w: "within_window (now - hours_delta 0) now stamped = Inr out0"
    by (auto simp: fetch_neso_demand_def Let_def ebind_def
        simp del: select_cols.simps split: csv_result.splits sum.splits)
  from s obtain ts where t: "getcol stamped ''timestamp'' = Inr (TimeCol ts)"
    using neso_add_timestamp_TimeCol by blast
  have o: "out0 = select_mask (map (\<lambda>t. t = now) ts) stamped"
    using w within_window_zero [OF t, of now] by simp
  have "getcol out0 ''timestamp'' = Inr (TimeCol (filter (\<lambda>t. t = now) ts))"
    unfolding o using getcol_select_mask [OF t] by (simp add: keep_map_filter)
  with h c s t o show "\<exists>df0 df stamped ts.
         csv = Csv df0 \<and>
         select_cols df0 [''SETTLEMENT_DATE'', ''SETTLEMENT_PERIOD'',
           ''EMBEDDED_WIND_GENERATION'', ''EMBEDDED_SOLAR_GENERATION''] = Inr df \<and>
         neso_add_timestamp parse df = Inr stamped \<and>
         getcol stamped ''timestamp'' = Inr (TimeCol ts) \<and>
         out0 = select_mask (map (\<lambda>t. t = now) ts) stamped \<and>
         getcol out0 ''timestamp'' = Inr (TimeCol (filter (\<lambda>t. t = now) ts))"
    by blast
qed

text \<open>
  Called with hours = 0 at the instant 88200, the generation fetcher returns the one
  source row stamped 88200; called at 3600, the demand fetcher returns the one row
  stamped 3600.
\<close>

theorem fetch_hours_zero_witness:
  "fetch_bmrs_fuelinst no_text 88200 0 (Response 200 (Some bmrs_two_days)) =
     Inr [(''settlementDate'', TimeCol [86400]),
          (''settlementPeriod'', NumCol [2]),
          (''fuelType'', StrCol [''WIND'']),
          (''generation'', NumCol [120]),
          (''timestamp'', TimeCol [88200])] \<and>
   fetch_neso_demand no_text 3600 0 (Csv neso_example) =
     Inr [(''SETTLEMENT_DATE'', TimeCol [0]),
          (''SETTLEMENT_PERIOD'', NumCol [3]),
          (''EMBEDDED_WIND_GENERATION'', NumCol [20]),
          (''EMBEDDED_SOLAR_GENERATION'', NumCol [15]),
          (''timestamp'', TimeCol [3600])] \<and>
   (\<exists>ts. getcol [(''settlementDate'', TimeCol [86400]),
          (''settlementPeriod'', NumCol [2]),
          (''fuelType'', StrCol [''WIND'']),
          (''generation'', NumCol [120]),
          (''timestamp'', TimeCol [88200])] ''timestamp''
      = Inr (TimeCol (filter (\<lambda>t. t = 88200) ts))) \<and>
   (\<exists>ts. getcol [(''SETTLEMENT_DATE'', TimeCol [0]),
          (''SETTLEMENT_PERIOD'', NumCol [3]),
          (''EMBEDDED_WIND_GENERATION'', NumCol [20]),
          (''EMBEDDED_SOLAR_GENERATION'', NumCol [15]),
          (''timestamp'', TimeCol [3600])] ''timestamp''
      = Inr (TimeCol (filter (\<lambda>t. t = 3600) ts)))"
proof -
  have b: "fetch_bmrs_fuelinst no_text 88200 0 (Response 200 (Some bmrs_two_days)) =
     Inr [(''settlementDate'', TimeCol [86400]),
          (''settlementPeriod'', NumCol [2]),
          (''fuelType'', StrCol [''WIND'']),
          (''generation'', NumCol [120]),
          (''timestamp'', TimeCol [88200])]"
    by code_simp
  have n: "fetch_neso_demand no_text 3600 0 (Csv neso_example) =
     Inr [(''SETTLEMENT_DATE'', TimeCol [0]),
          (''SETTLEMENT_PERIOD'', NumCol [3]),
          (''EMBEDDED_WIND_GENERATION'', NumCol [20]),
          (''EMBEDDED_SOLAR_GENERATION'', NumCol [15]),
          (''timestamp'', TimeCol [3600])]"
    by code_simp
  have "\<exists>ts. getcol [(''settlementDate'', TimeCol [86400]),
          (''settlementPeriod'', NumCol [2]),
          (''fuelType'', StrCol [''WIND'']),
          (''generation'', NumCol [120]),
          (''timestamp'', TimeCol [88200])] ''timestamp''
      = Inr (TimeCol (filter (\<lambda>t. t = 88200) ts))"
    using fetch_hours_zero [where parse = no_text and now = 88200
        and http = "Response 200 (Some bmrs_two_days)"] b
    by blast
  moreover have "\<exists>ts. getcol [(''SETTLEMENT_DATE'', TimeCol [0]),
          (''SETTLEMENT_PERIOD'', NumCol [3]),
          (''EMBEDDED_WIND_GENERATION'', NumCol [20]),
          (''EMBEDDED_SOLAR_GENERATION'', NumCol [15]),
          (''timestamp'', TimeCol [3600])] ''timestamp''
      = Inr (TimeCol (filter (\<lambda>t. t = 3600) ts))"
    using fetch_hours_zero [where parse = no_text and now = 3600 and csv = "Csv neso_example"] n
    by blast
  ultimately show ?thesis
    using b n by blast
qed

text \<open>
  Claim C8 as it is stated fails twice. When the generation source answers a call with
  hours = 0 by the empty JSON array, the table has no column and the fetcher raises
  KeyError. When the clock reading of the call is the timestamp of a source row (here
  5400, period 4 of day 0), the result is not empty: it holds that row.
\<close>

theorem fetch_hours_zero_counterexample:
  "fetch_bmrs_fuelinst no_text 5400 0 (Response 200 (Some [])) = Inl KeyError \<and>
   fetch_neso_demand no_text 5400 0 (Csv neso_example) =
     Inr [(''SETTLEMENT_DATE'', TimeCol [0]), (''SETTLEMENT_PERIOD'', NumCol [4]),
          (''EMBEDDED_WIND_GENERATION'', NumCol [21]),
          (''EMBEDDED_SOLAR_GENERATION'', NumCol [16]),
          (''timestamp'', TimeCol [5400])]"
  by code_simp

section \<open>The pivot\<close>

lemma group_values_rows:
  assumes "length fs = length ts" and "length gs = length ts"
  shows "group_values ts fs gs t f = map (nth gs) (group_rows ts fs t f)"
proof -
  have "zip (zip ts fs) gs = map (\<lambda>j. ((ts ! j, fs ! j), gs ! j)) [0..<length ts]"
    using assms by (intro nth_equalityI) simp_all
  then show ?thesis
    by (simp add: group_values_def group_rows_def filter_map comp_def)
qed

lemma pivot_cell_rows:
  assumes "length fs = length ts" and "length gs = length ts"
  shows "pivot_cell ts fs gs t f =
    (let rows = group_rows ts fs t f in
     if rows = [] then 0 else sum_list (map (nth gs) rows) / of_nat (length rows))"
  by (simp add: pivot_cell_def Let_def mean_def group_values_rows [OF assms])

lemma map_of_keyed: "k \<in> set ks \<Longrightarrow> map_of (map (\<lambda>c. (c, g c)) ks) k = Some (g k)"
  by (induction ks) auto

lemma pivot_fuelinst_eq:
  assumes "getcol df ''timestamp'' = Inr (TimeCol ts)"
    and "getcol df ''fuelType'' = Inr (StrCol fs)"
    and "getcol df ''generation'' = Inr (NumCol gs)"
    and "''timestamp'' \<notin> set fs"
  shows "pivot_fuelinst df =
    Inr ((''timestamp'', TimeCol (sort (remdups ts))) #
         map (\<lambda>f. (f, NumCol (map (\<lambda>t. pivot_cell ts fs gs t f) (sort (remdups ts)))))
             (sort (remdups fs)))"
  using assms
  by (simp add: pivot_fuelinst_def pivot_table_def reset_index_def ebind_def Let_def
      columns_def image_image)

lemma filter_eq_index: "j < n \<Longrightarrow> filter (\<lambda>k. k = j) [0..<n] = [j]"
  by (induction n) (auto simp: less_Suc_eq)

lemma group_rows_single:
  assumes "distinct (zip ts fs)" and "length fs = length ts" and "j < length ts"
  shows "group_rows ts fs (ts ! j) (fs ! j) = [j]"
proof -
  have "(ts ! k = ts ! j \<and> fs ! k = fs ! j) = (k = j)" if "k \<in> set [0..<length ts]" for k
  proof -
    have k: "k < length ts" "k < length fs" and j: "j < length ts" "j < length fs"
      using that assms(2,3) by simp_all
    have "(zip ts fs ! k = zip ts fs ! j) = (k = j)"
      using assms(1) k j by (intro nth_eq_iff_index_eq) simp_all
    then show ?thesis
      using k j by simp
  qed
  then have "group_rows ts fs (ts ! j) (fs ! j) = filter (\<lambda>k. k = j) [0..<length ts]"
    unfolding group_rows_def by (intro filter_cong) simp_all
  then show ?thesis
    using assms(3) by (simp add: filter_eq_index)
qed

text \<open>
  Claim C3. On a long table of fuel rows (instants, fuel-type names and numbers, no fuel
  type called \<^verbatim>\<open>timestamp\<close>) the pivot step returns a table with one row for each
  distinct timestamp, in ascending order, and one column for each fuel type that occurs,
  beside the timestamp column. The cell of a timestamp and a fuel type is the sum of the
  generation values of the rows that carry both, divided by their number, and 0 when
  there is no such row.
\<close>

theorem pivot_groups_mean:
  assumes "getcol df ''timestamp'' = Inr (TimeCol ts)"
    and "getcol df ''fuelType'' = Inr (StrCol fs)"
    and "getcol df ''generation'' = Inr (NumCol gs)"
    and "length fs = length ts" and "length gs = length ts"
    and "''timestamp'' \<notin> set fs"
  shows "\<exists>pivoted idx. pivot_fuelinst df = Inr pivoted \<and>
      getcol pivoted ''timestamp'' = Inr (TimeCol idx) \<and>
      distinct idx \<and> sorted idx \<and> set idx = set ts \<and>
      distinct (columns pivoted) \<and> set (columns pivoted) = insert ''timestamp'' (set fs) \<and>
      (\<forall>f\<in>set fs. \<exists>cells. getcol pivoted f = Inr (NumCol cells) \<and>
           length cells = length idx \<and>
           (\<forall>i<length idx. cells ! i =
              (let rows = group_rows ts fs (idx ! i) f in
               if rows = [] then 0
               else sum_list (map (nth gs) rows) / of_nat (length rows))))"
proof -
  let ?idx = "sort (remdups ts)"
  let ?cell = "\<lambda>f. NumCol (map (\<lambda>t. pivot_cell ts fs gs t f) ?idx)"
  let ?tab = "map (\<lambda>f. (f, ?cell f)) (sort (remdups fs))"
  let ?pivoted = "(''timestamp'', TimeCol ?idx) # ?tab"
  have p: "pivot_fuelinst df = Inr ?pivoted"
    using assms(1,2,3,6) by (rule pivot_fuelinst_eq)
  have t: "getcol ?pivoted ''timestamp'' = Inr (TimeCol ?idx)"
    by (simp add: getcol_def)
  have i: "distinct ?idx" "sorted ?idx" "set ?idx = set ts"
    by simp_all
  have c: "columns ?pivoted = ''timestamp'' # sort (remdups fs)"
    by (simp add: columns_def comp_def)
  have d: "distinct (columns ?pivoted)" "set (columns ?pivoted) = insert ''timestamp'' (set fs)"
    using assms(6) by (simp_all add: c)
  have cells: "\<exists>cells. getcol ?pivoted f = Inr (NumCol cells) \<and>
           length cells = length ?idx \<and>
           (\<forall>i<length ?idx. cells ! i =
              (let rows = group_rows ts fs (?idx ! i) f in
               if rows = [] then 0
               else sum_list (map (nth gs) rows) / of_nat (length rows)))"
    if f: "f \<in> set fs" for f
  proof -
    have "f \<noteq> ''timestamp''" using f assms(6) by auto
    moreover have "map_of ?tab f = Some (?cell f)"
      using f by (simp add: map_of_keyed [of f "sort (remdups fs)" ?cell])
    ultimately have "getcol ?pivoted f = Inr (?cell f)"
      by (simp add: getcol_def)
    moreover have "\<forall>i<length ?idx. map (\<lambda>t. pivot_cell ts fs gs t f) ?idx ! i =
              (let rows = group_rows ts fs (?idx ! i) f in
               if rows = [] then 0
               else sum_list (map (nth gs) rows) / of_nat (length rows))"
      using pivot_cell_rows [OF assms(4,5)] by simp
    ultimately show ?thesis
      by (intro exI [of _ "map (\<lambda>t. pivot_cell ts fs gs t f) ?idx"]) simp
  qed
  show ?thesis
    using p t i d cells by blast
qed

text \<open>
  Four fuel rows: WIND 100 and 101 and CCGT 200 at 1800, WIND 110 at 3600. The pivot has
  the rows 1800 and 3600 and the columns CCGT and WIND; WIND at 1800 is the mean 100.5,
  and CCGT at 3600, which no row gives, is 0.
\<close>

theorem pivot_groups_mean_witness:
  "getcol fuel_rows_example ''timestamp'' = Inr (TimeCol [3600, 1800, 1800, 1800]) \<and>
   getcol fuel_rows_example ''fuelType''
     = Inr (StrCol [''WIND'', ''WIND'', ''CCGT'', ''WIND'']) \<and>
   getcol fuel_rows_example ''generation'' = Inr (NumCol [110, 100, 200, 101]) \<and>
   length [''WIND'', ''WIND'', ''CCGT'', ''WIND''] = length [3600, 1800, 1800, 1800 :: rat] \<and>
   length [110, 100, 200, 101 :: rat] = length [3600, 1800, 1800, 1800 :: rat] \<and>
   ''timestamp'' \<notin> set [''WIND'', ''WIND'', ''CCGT'', ''WIND''] \<and>
   pivot_fuelinst fuel_rows_example =
     Inr [(''timestamp'', TimeCol [1800, 3600]),
          (''CCGT'', NumCol [200, 0]),
          (''WIND'', NumCol [201 / 2, 110])] \<and>
   (\<exists>pivoted idx. pivot_fuelinst fuel_rows_example = Inr pivoted \<and>
      getcol pivoted ''timestamp'' = Inr (TimeCol idx) \<and>
      distinct idx \<and> sorted idx \<and> set idx = {1800, 3600} \<and>
      distinct (columns pivoted) \<and>
      set (columns pivoted) = {''timestamp'', ''WIND'', ''CCGT''})"
proof -
  have h: "getcol fuel_rows_example ''timestamp'' = Inr (TimeCol [3600, 1800, 1800, 1800])"
    "getcol fuel_rows_example ''fuelType''
       = Inr (StrCol [''WIND'', ''WIND'', ''CCGT'', ''WIND''])"
    "getcol fuel_rows_example ''generation'' = Inr (NumCol [110, 100, 200, 101])"
    "length [''WIND'', ''WIND'', ''CCGT'', ''WIND''] = length [3600, 1800, 1800, 1800 :: rat]"
    "length [110, 100, 200, 101 :: rat] = length [3600, 1800, 1800, 1800 :: rat]"
    "''timestamp'' \<notin> set [''WIND'', ''WIND'', ''CCGT'', ''WIND'']"
    by (simp_all add: getcol_def fuel_rows_example_def)
  have e: "pivot_fuelinst fuel_rows_example =
     Inr [(''timestamp'', TimeCol [1800, 3600]),
          (''CCGT'', NumCol [200, 0]),
          (''WIND'', NumCol [201 / 2, 110])]"
    by code_simp
  have s1: "set [3600, 1800, 1800, 1800 :: rat] = {1800, 3600}"
    by (simp add: insert_commute)
  have s2: "insert ''timestamp'' (set [''WIND'', ''WIND'', ''CCGT'', ''WIND''])
       = {''timestamp'', ''WIND'', ''CCGT''}"
    by (simp add: insert_commute)
  from pivot_groups_mean [OF h] obtain pivoted idx where
    "pivot_fuelinst fuel_rows_example = Inr pivoted"
    "getcol pivoted ''timestamp'' = Inr (TimeCol idx)"
    "distinct idx" "sorted idx" "set idx = set [3600, 1800, 1800, 1800 :: rat]"
    "distinct (columns pivoted)"
    "set (columns pivoted) =
        insert ''timestamp'' (set [''WIND'', ''WIND'', ''CCGT'', ''WIND''])"
    by (elim exE conjE)
  then have "pivot_fuelinst fuel_rows_example = Inr pivoted \<and>
      getcol pivoted ''timestamp'' = Inr (TimeCol idx) \<and>
      distinct idx \<and> sorted idx \<and> set idx = {1800, 3600} \<and>
      distinct (columns pivoted) \<and>
      set (columns pivoted) = {''timestamp'', ''WIND'', ''CCGT''}"
    unfolding s1 s2 by (intro conjI)
  then have "\<exists>pivoted idx. pivot_fuelinst fuel_rows_example = Inr pivoted \<and>
      getcol pivoted ''timestamp'' = Inr (TimeCol idx) \<and>
      distinct idx \<and> sorted idx \<and> set idx = {1800, 3600} \<and>
      distinct (columns pivoted) \<and>
      set (columns pivoted) = {''timestamp'', ''WIND'', ''CCGT''}"
    by (intro exI)
  with h e show ?thesis by (intro conjI)
qed

text \<open>
  Claim C9, as amended. The pivot takes a long table. On a long table that has at most
  one row for each pair of a timestamp and a fuel type, it changes no value: the
  generation value of every row stands, as it is, in the cell of the row's timestamp and
  the column of its fuel type.
\<close>

theorem pivot_keeps_single_rows:
  assumes "getcol df ''timestamp'' = Inr (TimeCol ts)"
    and "getcol df ''fuelType'' = Inr (StrCol fs)"
    and "getcol df ''generation'' = Inr (NumCol gs)"
    and "length fs = length ts" and "length gs = length ts"
    and "''timestamp'' \<notin> set fs"
    and "distinct (zip ts fs)"
  shows "\<exists>pivoted idx. pivot_fuelinst df = Inr pivoted \<and>
      getcol pivoted ''timestamp'' = Inr (TimeCol idx) \<and>
      (\<forall>j<length ts. \<exists>cells i. getcol pivoted (fs ! j) = Inr (NumCol cells) \<and>
          i < length idx \<and> length cells = length idx \<and>
          idx ! i = ts ! j \<and> cells ! i = gs ! j)"
proof -
  let ?idx = "sort (remdups ts)"
  let ?cell = "\<lambda>f. NumCol (map (\<lambda>t. pivot_cell ts fs gs t f) ?idx)"
  let ?tab = "map (\<lambda>f. (f, ?cell f)) (sort (remdups fs))"
  let ?pivoted = "(''timestamp'', TimeCol ?idx) # ?tab"
  have p: "pivot_fuelinst df = Inr ?pivoted"
    using assms(1,2,3,6) by (rule pivot_fuelinst_eq)
  have t: "getcol ?pivoted ''timestamp'' = Inr (TimeCol ?idx)"
    by (simp add: getcol_def)
  have row: "\<exists>cells i. getcol ?pivoted (fs ! j) = Inr (NumCol cells) \<and>
          i < length ?idx \<and> length cells = length ?idx \<and>
          ?idx ! i = ts ! j \<and> cells ! i = gs ! j"
    if j: "j < length ts" for j
  proof -
    have f: "fs ! j \<in> set fs"
      using j assms(4) by simp
    then have "fs ! j \<noteq> ''timestamp''" using assms(6) by auto
    moreover have "map_of ?tab (fs ! j) = Some (?cell (fs ! j))"
      using f by (simp add: map_of_keyed [of "fs ! j" "sort (remdups fs)" ?cell])
    ultimately have g: "getcol ?pivoted (fs ! j) = Inr (?cell (fs ! j))"
      by (simp add: getcol_def)
    have "ts ! j \<in> set ?idx"
      using j by simp
    then obtain i where i: "i < length ?idx" "?idx ! i = ts ! j"
      by (metis in_set_conv_nth)
    have "pivot_cell ts fs gs (ts ! j) (fs ! j) = gs ! j"
      using group_rows_single [OF assms(7,4) j]
      by (simp add: pivot_cell_rows [OF assms(4,5)])
    then have "map (\<lambda>t. pivot_cell ts fs gs t (fs ! j)) ?idx ! i = gs ! j"
      using i by simp
    with g i show ?thesis
      by (intro exI [of _ "map (\<lambda>t. pivot_cell ts fs gs t (fs ! j)) ?idx"] exI [of _ i]) simp
  qed
  show ?thesis
    using p t row by blast
qed

text \<open>
  Three fuel rows with three different pairs: the row WIND, 3600, 110 is found again as
  110 in the column WIND at the timestamp 3600.
\<close>

theorem pivot_keeps_single_rows_witness:
  "getcol long_example ''timestamp'' = Inr (TimeCol [1800, 1800, 3600]) \<and>
   getcol long_example ''fuelType'' = Inr (StrCol [''WIND'', ''CCGT'', ''WIND'']) \<and>
   getcol long_example ''generation'' = Inr (NumCol [100, 200, 110]) \<and>
   length [''WIND'', ''CCGT'', ''WIND''] = length [1800, 1800, 3600 :: rat] \<and>
   length [100, 200, 110 :: rat] = length [1800, 1800, 3600 :: rat] \<and>
   ''timestamp'' \<notin> set [''WIND'', ''CCGT'', ''WIND''] \<and>
   distinct (zip [1800, 1800, 3600 :: rat] [''WIND'', ''CCGT'', ''WIND'']) \<and>
   (\<exists>pivoted idx. pivot_fuelinst long_example = Inr pivoted \<and>
      getcol pivoted ''timestamp'' = Inr (TimeCol idx) \<and>
      (\<exists>cells i. getcol pivoted ''WIND'' = Inr (NumCol cells) \<and>
          i < length idx \<and> length cells = length idx \<and>
          idx ! i = 3600 \<and> cells ! i = 110))"
proof -
  have h: "getcol long_example ''timestamp'' = Inr (TimeCol [1800, 1800, 3600])"
    "getcol long_example ''fuelType'' = Inr (StrCol [''WIND'', ''CCGT'', ''WIND''])"
    "getcol long_example ''generation'' = Inr (NumCol [100, 200, 110])"
    "length [''WIND'', ''CCGT'', ''WIND''] = length [1800, 1800, 3600 :: rat]"
    "length [100, 200, 110 :: rat] = length [1800, 1800, 3600 :: rat]"
    "''timestamp'' \<notin> set [''WIND'', ''CCGT'', ''WIND'']"
    "distinct (zip [1800, 1800, 3600 :: rat] [''WIND'', ''CCGT'', ''WIND''])"
    by (simp_all add: getcol_def long_example_def)
  from pivot_keeps_single_rows [OF h] obtain pivoted idx where
    p: "pivot_fuelinst long_example = Inr pivoted"
      "getcol pivoted ''timestamp'' = Inr (TimeCol idx)" and
    r: "\<forall>j<length [1800, 1800, 3600 :: rat]. \<exists>cells i.
          getcol pivoted ([''WIND'', ''CCGT'', ''WIND''] ! j) = Inr (NumCol cells) \<and>
          i < length idx \<and> length cells = length idx \<and>
          idx ! i = [1800, 1800, 3600] ! j \<and> cells ! i = [100, 200, 110] ! j"
    by blast
  have "2 < length [1800, 1800, 3600 :: rat]"
    by simp
  with r have "\<exists>cells i.
          getcol pivoted ([''WIND'', ''CCGT'', ''WIND''] ! 2) = Inr (NumCol cells) \<and>
          i < length idx \<and> length cells = length idx \<and>
          idx ! i = [1800, 1800, 3600] ! 2 \<and> cells ! i = [100, 200, 110] ! 2"
    by blast
  then have "\<exists>cells i. getcol pivoted ''WIND'' = Inr (NumCol cells) \<and>
          i < length idx \<and> length cells = length idx \<and>
          idx ! i = 3600 \<and> cells ! i = 110"
    by simp
  with p h show ?thesis by blast
qed

text \<open>
  Claim C9 as it is stated fails: the pivot of a long table is a wide table, and the
  pivot applied to that wide table raises KeyError, because a wide table has no
  \<^verbatim>\<open>generation\<close> and no \<^verbatim>\<open>fuelType\<close> column.
\<close>

theorem pivot_twice_counterexample:
  "pivot_fuelinst long_example = Inr wide_example \<and>
   pivot_fuelinst wide_example = Inl KeyError"
  by code_simp

section \<open>The join\<close>

lemma set_join_pairs:
  "set (join_pairs ls rs) = {(i, j). i < length ls \<and> j < length rs \<and> ls ! i = rs ! j}"
  by (auto simp: join_pairs_def)

lemma join_left_keys:
  "set (map (nth ls) (map fst (join_pairs ls rs))) = set ls \<inter> set rs"
proof (intro set_eqI iffI)
  fix x assume "x \<in> set (map (nth ls) (map fst (join_pairs ls rs)))"
  then obtain i j where "(i, j) \<in> set (join_pairs ls rs)" "x = ls ! i"
    by auto
  then have "i < length ls" "j < length rs" "ls ! i = rs ! j" "x = ls ! i"
    by (simp_all add: set_join_pairs)
  then show "x \<in> set ls \<inter> set rs"
    using nth_mem by (metis IntI)
next
  fix x assume "x \<in> set ls \<inter> set rs"
  then obtain i j where ij: "i < length ls" "ls ! i = x" "j < length rs" "rs ! j = x"
    by (auto simp: in_set_conv_nth)
  then have "(i, j) \<in> set (join_pairs ls rs)"
    by (simp add: set_join_pairs)
  then have "ls ! fst (i, j) \<in> (\<lambda>p. ls ! fst p) ` set (join_pairs ls rs)"
    by (rule imageI)
  then have "ls ! i \<in> set (map (nth ls) (map fst (join_pairs ls rs)))"
    by (simp add: image_image)
  then show "x \<in> set (map (nth ls) (map fst (join_pairs ls rs)))"
    using ij by simp
qed

lemma map_of_renamed:
  assumes "\<forall>c. (f c = k) = (c = k)"
  shows "map_of (map (\<lambda>(c, s). (f c, g s)) left) k = map_option g (map_of left k)"
proof (induction left)
  case Nil
  show ?case by simp
next
  case (Cons a left)
  obtain c s where a: "a = (c, s)" by (cases a)
  have "(f c = k) = (c = k)" using assms by blast
  then show ?case
    using Cons by (cases "c = k") (simp_all add: a)
qed

lemma suffix_x_neq: "c @ ''_x'' \<noteq> ''timestamp''"
proof
  assume "c @ ''_x'' = ''timestamp''"
  then have "last (c @ ''_x'') = last ''timestamp''" by simp
  then show False by simp
qed

lemma merge_inner_all_len:
  assumes "merge_inner left right = Inr merged"
  shows "\<exists>n. all_len n merged"
proof -
  from assms obtain ps where "merged = merge_columns ps left right"
    by (auto simp: merge_inner_def ebind_def split: sum.splits)
  then have "all_len (length ps) merged"
    by (simp add: merge_columns_def Let_def all_len_append all_len_take)
  then show ?thesis ..
qed

lemma merge_inner_nonempty:
  assumes "merge_inner left right = Inr merged"
  shows "merged \<noteq> []"
proof -
  from assms have "left \<noteq> []"
    by (auto simp: merge_inner_def ebind_def getcol_def)
  with assms show ?thesis
    by (auto simp: merge_inner_def merge_columns_def ebind_def Let_def split: sum.splits)
qed

lemma merge_datasets_inner:
  assumes "merge_datasets b n = Inr merged"
  shows "\<exists>pivoted. merge_inner pivoted n = Inr merged"
  using assms by (auto simp: merge_datasets_def ebind_def split: sum.splits)

lemma merge_inner_keys:
  assumes "getcol left ''timestamp'' = Inr (TimeCol ls)"
    and "getcol right ''timestamp'' = Inr (TimeCol rs)"
  shows "\<exists>merged ms. merge_inner left right = Inr merged \<and>
           getcol merged ''timestamp'' = Inr (TimeCol ms) \<and>
           set ms = set ls \<inter> set rs"
proof -
  let ?ps = "join_pairs ls rs"
  let ?lnames = "removeAll ''timestamp'' (columns left)"
  let ?rnames = "removeAll ''timestamp'' (columns right)"
  let ?lname = "\<lambda>c. if c \<in> set ?lnames \<and> c \<in> set ?rnames then c @ ''_x'' else c"
  let ?rname = "\<lambda>c. if c \<in> set ?lnames then c @ ''_y'' else c"
  let ?L = "map (\<lambda>(c, s). (?lname c, series_take (map fst ?ps) s)) left"
  let ?R = "map (\<lambda>(c, s). (?rname c, series_take (map snd ?ps) s))
                 (filter (\<lambda>(c, s). c \<noteq> ''timestamp'') right)"
  have m: "merge_inner left right = Inr (?L @ ?R)"
    using assms by (simp add: merge_inner_def merge_columns_def ebind_def Let_def)
  have l: "map_of left ''timestamp'' = Some (TimeCol ls)"
    using assms(1) by (simp add: getcol_def split: option.splits)
  have "\<forall>c. (?lname c = ''timestamp'') = (c = ''timestamp'')"
    using suffix_x_neq by simp
  then have "map_of ?L ''timestamp''
       = map_option (series_take (map fst ?ps)) (map_of left ''timestamp'')"
    by (rule map_of_renamed)
  then have "map_of ?L ''timestamp'' = Some (TimeCol (map (nth ls) (map fst ?ps)))"
    by (simp only: l option.map series_take.simps)
  then have "map_of (?L @ ?R) ''timestamp'' = Some (TimeCol (map (nth ls) (map fst ?ps)))"
    by (simp only: map_of_append map_add_Some_iff) simp
  then have g: "getcol (?L @ ?R) ''timestamp'' = Inr (TimeCol (map (nth ls) (map fst ?ps)))"
    by (simp only: getcol_def option.case)
  show ?thesis
    using m g join_left_keys [of ls rs] by blast
qed

text \<open>
  Claim C4. The join of a pivoted table and a demand table whose \<^verbatim>\<open>timestamp\<close> columns
  hold instants returns a table, and the set of the timestamps of that table is the
  intersection of the two sets of timestamps: a timestamp that only one of the two
  tables has is in no row of the result. The same holds for \<^verbatim>\<open>merge_datasets\<close> as a
  whole, between the timestamps of the long table of fuel rows and those of the demand
  table.
\<close>

theorem merge_timestamps:
  "(getcol left ''timestamp'' = Inr (TimeCol ls) \<and>
    getcol right ''timestamp'' = Inr (TimeCol rs) \<longrightarrow>
      (\<exists>merged ms. merge_inner left right = Inr merged \<and>
         getcol merged ''timestamp'' = Inr (TimeCol ms) \<and>
         set ms = set ls \<inter> set rs)) \<and>
   (getcol df ''timestamp'' = Inr (TimeCol ts) \<and>
    getcol df ''fuelType'' = Inr (StrCol fs) \<and>
    getcol df ''generation'' = Inr (NumCol gs) \<and>
    ''timestamp'' \<notin> set fs \<and>
    getcol right ''timestamp'' = Inr (TimeCol rs) \<longrightarrow>
      (\<exists>merged ms. merge_datasets df right = Inr merged \<and>
         getcol merged ''timestamp'' = Inr (TimeCol ms) \<and>
         set ms = set ts \<inter> set rs))"
proof (intro conjI impI)
  assume "getcol left ''timestamp'' = Inr (TimeCol ls) \<and>
    getcol right ''timestamp'' = Inr (TimeCol rs)"
  then show "\<exists>merged ms. merge_inner left right = Inr merged \<and>
         getcol merged ''timestamp'' = Inr (TimeCol ms) \<and>
         set ms = set ls \<inter> set rs"
    using merge_inner_keys by blast
next
  assume a: "getcol df ''timestamp'' = Inr (TimeCol ts) \<and>
    getcol df ''fuelType'' = Inr (StrCol fs) \<and>
    getcol df ''generation'' = Inr (NumCol gs) \<and>
    ''timestamp'' \<notin> set fs \<and>
    getcol right ''timestamp'' = Inr (TimeCol rs)"
  let ?pivoted = "(''timestamp'', TimeCol (sort (remdups ts))) #
         map (\<lambda>f. (f, NumCol (map (\<lambda>t. pivot_cell ts fs gs t f) (sort (remdups ts)))))
             (sort (remdups fs))"
  have p: "pivot_fuelinst df = Inr ?pivoted"
    using a by (intro pivot_fuelinst_eq) simp_all
  have k: "getcol ?pivoted ''timestamp'' = Inr (TimeCol (sort (remdups ts)))"
    by (simp add: getcol_def)
  have r: "getcol right ''timestamp'' = Inr (TimeCol rs)"
    using a by simp
  from merge_inner_keys [OF k r] obtain merged ms where
    "merge_inner ?pivoted right = Inr merged"
    "getcol merged ''timestamp'' = Inr (TimeCol ms)"
    "set ms = set (sort (remdups ts)) \<inter> set rs"
    by (elim exE conjE)
  moreover have "merge_datasets df right = merge_inner ?pivoted right"
    by (simp add: merge_datasets_def p ebind_def)
  ultimately have "merge_datasets df right = Inr merged \<and>
         getcol merged ''timestamp'' = Inr (TimeCol ms) \<and>
         set ms = set ts \<inter> set rs"
    by simp
  then show "\<exists>merged ms. merge_datasets df right = Inr merged \<and>
         getcol merged ''timestamp'' = Inr (TimeCol ms) \<and>
         set ms = set ts \<inter> set rs"
    by (intro exI)
qed

text \<open>
  The timestamps T1 = 1800, T2 = 3600, T3 = 5400 joined with T2, T3, T4 = 7200 give T2
  and T3, from the pivoted table and from the long table that pivots to it.
\<close>

theorem merge_timestamps_witness:
  "getcol pivoted_example ''timestamp'' = Inr (TimeCol [1800, 3600, 5400]) \<and>
   getcol demand_example ''timestamp'' = Inr (TimeCol [3600, 5400, 7200]) \<and>
   merge_inner pivoted_example demand_example =
     Inr [(''timestamp'', TimeCol [3600, 5400]), (''WIND'', NumCol [110, 120]),
          (''SETTLEMENT_PERIOD'', NumCol [3, 4]),
          (''EMBEDDED_WIND_GENERATION'', NumCol [20, 21])] \<and>
   (\<exists>merged ms. merge_inner pivoted_example demand_example = Inr merged \<and>
      getcol merged ''timestamp'' = Inr (TimeCol ms) \<and> set ms = {3600, 5400}) \<and>
   getcol long_three ''timestamp'' = Inr (TimeCol [5400, 1800, 3600]) \<and>
   getcol long_three ''fuelType'' = Inr (StrCol [''WIND'', ''WIND'', ''WIND'']) \<and>
   getcol long_three ''generation'' = Inr (NumCol [120, 100, 110]) \<and>
   ''timestamp'' \<notin> set [''WIND'', ''WIND'', ''WIND''] \<and>
   (\<exists>merged ms. merge_datasets long_three demand_example = Inr merged \<and>
      getcol merged ''timestamp'' = Inr (TimeCol ms) \<and> set ms = {3600, 5400})"
proof -
  have h: "getcol pivoted_example ''timestamp'' = Inr (TimeCol [1800, 3600, 5400])"
    "getcol demand_example ''timestamp'' = Inr (TimeCol [3600, 5400, 7200])"
    by (simp_all add: getcol_def pivoted_example_def demand_example_def)
  have l: "getcol long_three ''timestamp'' = Inr (TimeCol [5400, 1800, 3600])"
    "getcol long_three ''fuelType'' = Inr (StrCol [''WIND'', ''WIND'', ''WIND''])"
    "getcol long_three ''generation'' = Inr (NumCol [120, 100, 110])"
    "''timestamp'' \<notin> set [''WIND'', ''WIND'', ''WIND'']"
    by (simp_all add: getcol_def long_three_def)
  have e: "merge_inner pivoted_example demand_example =
     Inr [(''timestamp'', TimeCol [3600, 5400]), (''WIND'', NumCol [110, 120]),
          (''SETTLEMENT_PERIOD'', NumCol [3, 4]),
          (''EMBEDDED_WIND_GENERATION'', NumCol [20, 21])]"
    by code_simp
  have s1: "set [1800, 3600, 5400 :: rat] \<inter> set [3600, 5400, 7200] = {3600, 5400}"
    by auto
  have s2: "set [5400, 1800, 3600 :: rat] \<inter> set [3600, 5400, 7200] = {3600, 5400}"
    by auto
  have t: "(getcol pivoted_example ''timestamp'' = Inr (TimeCol [1800, 3600, 5400]) \<and>
    getcol demand_example ''timestamp'' = Inr (TimeCol [3600, 5400, 7200]) \<longrightarrow>
      (\<exists>merged ms. merge_inner pivoted_example demand_example = Inr merged \<and>
         getcol merged ''timestamp'' = Inr (TimeCol ms) \<and>
         set ms = {3600, 5400})) \<and>
   (getcol long_three ''timestamp'' = Inr (TimeCol [5400, 1800, 3600]) \<and>
    getcol long_three ''fuelType'' = Inr (StrCol [''WIND'', ''WIND'', ''WIND'']) \<and>
    getcol long_three ''generation'' = Inr (NumCol [120, 100, 110]) \<and>
    ''timestamp'' \<notin> set [''WIND'', ''WIND'', ''WIND''] \<and>
    getcol demand_example ''timestamp'' = Inr (TimeCol [3600, 5400, 7200]) \<longrightarrow>
      (\<exists>merged ms. merge_datasets long_three demand_example = Inr merged \<and>
         getcol merged ''timestamp'' = Inr (TimeCol ms) \<and>
         set ms = {3600, 5400}))"
    using merge_timestamps [of pivoted_example "[1800, 3600, 5400]" demand_example
        "[3600, 5400, 7200]" long_three "[5400, 1800, 3600]"
        "[''WIND'', ''WIND'', ''WIND'']" "[120, 100, 110]"]
    unfolding s1 s2 .
  from t h have a: "\<exists>merged ms. merge_inner pivoted_example demand_example = Inr merged \<and>
         getcol merged ''timestamp'' = Inr (TimeCol ms) \<and> set ms = {3600, 5400}"
    by blast
  from t h l have b: "\<exists>merged ms. merge_datasets long_three demand_example = Inr merged \<and>
         getcol merged ''timestamp'' = Inr (TimeCol ms) \<and> set ms = {3600, 5400}"
    by blast
  from h e a l b show ?thesis
    by (intro conjI)
qed

section \<open>The run\<close>

text \<open>
  The write and the line after it can fail, and then the file is not what it was: when
  the console cannot print the last line, the run ends with that error after the file
  has been replaced; when the disk fails during the write, the file is left with the
  rows written so far (here none, of a table with one row).
\<close>

lemma fetch_pipeline_late_failure:
  "fetch_pipeline no_text no_arrow 7200 (Response 200 (Some bmrs_example)) 7200
     (Csv neso_example) DiskOk (Some example_row)
     = (Inl UnicodeEncodeError, Some written_example)"
  "fetch_pipeline no_text quiet 7200 (Response 200 (Some bmrs_example)) 7200
     (Csv neso_example) (DiskFailsAfter 0) (Some example_row)
     = (Inl OSError, Some (head_rows 0 written_example))"
  "nrows written_example = 1"
  "nrows (head_rows 0 written_example) = 0"
  by (simp_all add: fetch_pipeline_def print_line_def quiet_def to_csv_def example_run
      process_merged_example nrows_def head_rows_def written_example_def)

text \<open>
  Claim C6. When a step of a run fails (the first fetch, the second fetch, the merge or
  the aggregation), the run ends with an error and the output file is what it was before
  the run, whatever the console and the disk would do; no part of a table has been
  written. When the lines before the steps are printed, the error is that of the step.
\<close>

theorem fetch_pipeline_atomic:
  "(fetch_bmrs_fuelinst parse now1 24 http = Inl e \<or>
     (\<exists>fuelinst_df. fetch_bmrs_fuelinst parse now1 24 http = Inr fuelinst_df \<and>
        (fetch_neso_demand parse now2 24 csv = Inl e \<or>
         (\<exists>neso_df. fetch_neso_demand parse now2 24 csv = Inr neso_df \<and>
            (merge_datasets fuelinst_df neso_df = Inl e \<or>
             (\<exists>merged. merge_datasets fuelinst_df neso_df = Inr merged \<and>
                snd (process_merged merged) = Inl e))))))
    \<longrightarrow> snd (fetch_pipeline parse console now1 http now2 csv d old) = old \<and>
        (\<exists>e'. fst (fetch_pipeline parse console now1 http now2 csv d old) = Inl e') \<and>
        (console FetchingBMRS = None \<and> console FetchingNESO = None \<and>
         console Merging = None \<and> console Processing = None
           \<longrightarrow> fetch_pipeline parse console now1 http now2 csv d old = (Inl e, old))"
proof (intro impI)
  assume a: "fetch_bmrs_fuelinst parse now1 24 http = Inl e \<or>
     (\<exists>fuelinst_df. fetch_bmrs_fuelinst parse now1 24 http = Inr fuelinst_df \<and>
        (fetch_neso_demand parse now2 24 csv = Inl e \<or>
         (\<exists>neso_df. fetch_neso_demand parse now2 24 csv = Inr neso_df \<and>
            (merge_datasets fuelinst_df neso_df = Inl e \<or>
             (\<exists>merged. merge_datasets fuelinst_df neso_df = Inr merged \<and>
                snd (process_merged merged) = Inl e)))))"
  let ?run = "fetch_pipeline parse console now1 http now2 csv d old"
  have unchanged: "snd ?run = old"
    using a by (auto simp: fetch_pipeline_def split: sum.splits)
  have failed: "\<exists>e'. fst ?run = Inl e'"
    using a by (auto simp: fetch_pipeline_def split: sum.splits)
  have step: "?run = (Inl e, old)"
    if "console FetchingBMRS = None \<and> console FetchingNESO = None \<and>
        console Merging = None \<and> console Processing = None"
    using a that by (auto simp: fetch_pipeline_def print_line_def split: sum.splits)
  show "snd ?run = old \<and> (\<exists>e'. fst ?run = Inl e') \<and>
        (console FetchingBMRS = None \<and> console FetchingNESO = None \<and>
         console Merging = None \<and> console Processing = None \<longrightarrow> ?run = (Inl e, old))"
    using unchanged failed step by blast
qed

text \<open>
  A run over an output file that holds the scenario row, on a disk that would fail
  after the first row and a console that cannot print the last line. No fuel row has
  the type OIL, so the aggregation raises KeyError: the run ends with that error and the
  file still holds the scenario row.
\<close>

theorem fetch_pipeline_atomic_witness:
  "fetch_bmrs_fuelinst no_text 7200 24 (Response 200 (Some bmrs_no_oil))
     = Inr (bmrs_no_oil @ [(''timestamp'', TimeCol (replicate 7 3600))]) \<and>
   fetch_neso_demand no_text 7200 24 (Csv neso_later) = Inr neso_later_fetched \<and>
   merge_datasets (bmrs_no_oil @ [(''timestamp'', TimeCol (replicate 7 3600))])
     neso_later_fetched = Inr no_oil_merged \<and>
   snd (process_merged no_oil_merged) = Inl KeyError \<and>
   no_arrow FetchingBMRS = None \<and> no_arrow FetchingNESO = None \<and>
   no_arrow Merging = None \<and> no_arrow Processing = None \<and>
   fetch_pipeline no_text no_arrow 7200 (Response 200 (Some bmrs_no_oil)) 7200
     (Csv neso_later) (DiskFailsAfter 1) (Some example_row)
     = (Inl KeyError, Some example_row)"
proof -
  have b: "fetch_bmrs_fuelinst no_text 7200 24 (Response 200 (Some bmrs_no_oil))
     = Inr (bmrs_no_oil @ [(''timestamp'', TimeCol (replicate 7 3600))])"
    by code_simp
  have n: "fetch_neso_demand no_text 7200 24 (Csv neso_later) = Inr neso_later_fetched"
    by code_simp
  have m: "merge_datasets (bmrs_no_oil @ [(''timestamp'', TimeCol (replicate 7 3600))])
     neso_later_fetched = Inr no_oil_merged"
    by code_simp
  have p: "snd (process_merged no_oil_merged) = Inl KeyError"
    by code_simp
  have c: "no_arrow FetchingBMRS = None \<and> no_arrow FetchingNESO = None \<and>
     no_arrow Merging = None \<and> no_arrow Processing = None"
    by simp
  have "fetch_pipeline no_text no_arrow 7200 (Response 200 (Some bmrs_no_oil)) 7200
     (Csv neso_later) (DiskFailsAfter 1) (Some example_row)
     = (Inl KeyError, Some example_row)"
    using fetch_pipeline_atomic [of no_text 7200 "Response 200 (Some bmrs_no_oil)" KeyError
        7200 "Csv neso_later" no_arrow "DiskFailsAfter 1" "Some example_row"]
      b n m p c
    by blast
  with b n m p c show ?thesis
    by (intro conjI) simp_all
qed

text \<open>
  Claim C7, as amended. A join without rows is no error. When both fetches and the
  merge return, the merged table has no row and the aggregation returns, a run whose
  five lines are printed and whose disk does not fail writes the table that the
  aggregation returns, and that table has its columns and no row.
\<close>

theorem empty_join_is_written:
  assumes "fetch_bmrs_fuelinst parse now1 24 http = Inr fuelinst_df"
    and "fetch_neso_demand parse now2 24 csv = Inr neso_df"
    and "merge_datasets fuelinst_df neso_df = Inr merged"
    and "nrows merged = 0"
    and "snd (process_merged merged) = Inr processed"
    and "console FetchingBMRS = None" and "console FetchingNESO = None"
    and "console Merging = None" and "console Processing = None"
    and "console (Saved 0) = None"
  shows "fetch_pipeline parse console now1 http now2 csv DiskOk old
           = (Inr (), Some processed) \<and>
         columns processed \<noteq> [] \<and> all_len 0 processed \<and> nrows processed = 0"
proof -
  from assms(3) obtain pivoted where mi: "merge_inner pivoted neso_df = Inr merged"
    using merge_datasets_inner by blast
  then obtain n where n: "all_len n merged"
    using merge_inner_all_len by blast
  have ne: "merged \<noteq> []"
    using mi by (rule merge_inner_nonempty)
  have "n = 0"
    using all_len_nrows [OF n ne] assms(4) by simp
  then have z: "all_len 0 processed"
    using process_merged_all_len [OF assms(5)] n by simp
  have "processed = round_frame (fst (process_merged merged))"
    using assms(5) by (rule process_merged_Inr)
  moreover have "fst (process_merged merged) \<noteq> []"
    using assms(5) ne by (elim process_merged_steps) (auto simp: setcol_def neq_Nil_conv)
  ultimately have pne: "processed \<noteq> []"
    by (simp add: round_frame_def)
  have r: "nrows processed = 0"
    using all_len_nrows [OF z pne] .
  have "fetch_pipeline parse console now1 http now2 csv DiskOk old
      = (Inr (), Some processed)"
    using assms(1,2,3,5,6,7,8,9,10) r
    by (simp add: fetch_pipeline_def print_line_def to_csv_def)
  then show ?thesis
    using z pne r by (simp add: columns_def)
qed

text \<open>
  The generation source has rows at 3600 only, the demand file at 5400 and 7200 only.
  The join has no row, and the run writes the table of eighteen columns without rows
  over the file that held the scenario row.
\<close>

theorem empty_join_is_written_witness:
  "fetch_bmrs_fuelinst no_text 7200 24 (Response 200 (Some bmrs_example))
     = Inr (bmrs_example @ [(''timestamp'', TimeCol (replicate 9 3600))]) \<and>
   fetch_neso_demand no_text 7200 24 (Csv neso_later) = Inr neso_later_fetched \<and>
   merge_datasets (bmrs_example @ [(''timestamp'', TimeCol (replicate 9 3600))])
     neso_later_fetched = Inr empty_merged \<and>
   nrows empty_merged = 0 \<and>
   snd (process_merged empty_merged) = Inr empty_written \<and>
   quiet FetchingBMRS = None \<and> quiet FetchingNESO = None \<and> quiet Merging = None \<and>
   quiet Processing = None \<and> quiet (Saved 0) = None \<and>
   fetch_pipeline no_text quiet 7200 (Response 200 (Some bmrs_example)) 7200
     (Csv neso_later) DiskOk (Some example_row) = (Inr (), Some empty_written) \<and>
   nrows empty_written = 0"
proof -
  have h: "fetch_bmrs_fuelinst no_text 7200 24 (Response 200 (Some bmrs_example))
     = Inr (bmrs_example @ [(''timestamp'', TimeCol (replicate 9 3600))])"
    "fetch_neso_demand no_text 7200 24 (Csv neso_later) = Inr neso_later_fetched"
    "merge_datasets (bmrs_example @ [(''timestamp'', TimeCol (replicate 9 3600))])
       neso_later_fetched = Inr empty_merged"
    "nrows empty_merged = 0"
    "snd (process_merged empty_merged) = Inr empty_written"
    by code_simp+
  have q: "quiet FetchingBMRS = None" "quiet FetchingNESO = None" "quiet Merging = None"
    "quiet Processing = None" "quiet (Saved 0) = None"
    by (simp_all add: quiet_def)
  show ?thesis
    using empty_join_is_written [OF h q, of "Some example_row"] h q by simp
qed

text \<open>
  Claim C7 as it is stated fails: on these sources both fetchers return rows (nine and
  two), no timestamp is in both, and the run ends without an error and has written a
  table without rows.
\<close>

theorem empty_join_counterexample:
  "map_sum id nrows (fetch_bmrs_fuelinst no_text 7200 24 (Response 200 (Some bmrs_example)))
     = Inr 9 \<and>
   map_sum id nrows (fetch_neso_demand no_text 7200 24 (Csv neso_later)) = Inr 2 \<and>
   fetch_pipeline no_text quiet 7200 (Response 200 (Some bmrs_example)) 7200
     (Csv neso_later) DiskOk None = (Inr (), Some empty_written) \<and>
   nrows empty_written = 0"
  by code_simp

end
